theory Spec2Isabelle
  imports Main
begin

section \<open>SecurityManager: the fixed-window rate limiter\<close>

text \<open>
  \<^verbatim>\<open>private rateLimitMap = new Map<string, { count: number; resetTime: number }>()\<close>.
  Timestamps are the integer milliseconds of \<^verbatim>\<open>Date.now()\<close>; \<^verbatim>\<open>limit\<close> and
  \<^verbatim>\<open>windowMs\<close> are integers as well. The clock reading is an explicit argument
  \<open>now\<close> of every operation that reads it.
\<close>

record rate_entry =
  count :: int
  resetTime :: int

type_synonym rateLimitMap = "string \<rightharpoonup> rate_entry"

text \<open>
  \<^verbatim>\<open>checkRateLimit(userId, limit, windowMs)\<close>: the returned pair is the boolean result
  and the map after the call. \<^verbatim>\<open>userLimit.count++\<close> mutates the entry held by the map.
\<close>

definition checkRateLimit ::
  "int \<Rightarrow> string \<Rightarrow> int \<Rightarrow> int \<Rightarrow> rateLimitMap \<Rightarrow> bool \<times> rateLimitMap" where
  "checkRateLimit now userId limit windowMs m =
     (case m userId of
        None \<Rightarrow> (True, m(userId \<mapsto> \<lparr>count = 1, resetTime = now + windowMs\<rparr>))
      | Some userLimit \<Rightarrow>
          if now > resetTime userLimit
          then (True, m(userId \<mapsto> \<lparr>count = 1, resetTime = now + windowMs\<rparr>))
          else if count userLimit \<ge> limit then (False, m)
          else (True, m(userId \<mapsto> userLimit\<lparr>count := count userLimit + 1\<rparr>)))"

text \<open>
  \<^verbatim>\<open>cleanupRateLimits()\<close>: the loop visits every entry of the map once and deletes
  the entry when \<^verbatim>\<open>now > data.resetTime\<close>; all other entries stay as they are.
\<close>

definition cleanupRateLimits :: "int \<Rightarrow> rateLimitMap \<Rightarrow> rateLimitMap" where
  "cleanupRateLimits now m =
     (\<lambda>userId. case m userId of
                  None \<Rightarrow> None
                | Some data \<Rightarrow> if now > resetTime data then None else Some data)"

text \<open>
  The loop itself, \<^verbatim>\<open>for (const [userId, data] of this.rateLimitMap.entries())\<close>, run
  over the keys of the map in the order the iterator yields them. Lemma
  \<open>cleanup_loop_eq\<close> shows that it computes \<open>cleanupRateLimits\<close> whatever that order is.
\<close>

fun cleanup_loop :: "int \<Rightarrow> string list \<Rightarrow> rateLimitMap \<Rightarrow> rateLimitMap" where
  "cleanup_loop now [] m = m"
| "cleanup_loop now (userId # rest) m =
     (case m userId of
        None \<Rightarrow> cleanup_loop now rest m
      | Some data \<Rightarrow>
          if now > resetTime data then cleanup_loop now rest (m(userId := None))
          else cleanup_loop now rest m)"

text \<open>
  A caller's view of the limiter: a sequence of \<^verbatim>\<open>checkRateLimit\<close> calls, each with its
  clock reading, identity, limit and window, and the list of booleans it gets back.
\<close>

record rate_call =
  at :: int
  who :: string
  lim :: int
  win :: int

fun run_calls :: "rateLimitMap \<Rightarrow> rate_call list \<Rightarrow> bool list \<times> rateLimitMap" where
  "run_calls m [] = ([], m)"
| "run_calls m (c # cs) =
     (let (r, m') = checkRateLimit (at c) (who c) (lim c) (win c) m;
          (rs, m'') = run_calls m' cs
      in (r # rs, m''))"

text \<open>
  The live counter of an identity, in the words of the specification: the stored counter
  unless its reset time has passed (\<open>now > resetTime\<close>), in which case it counts as absent.
\<close>

definition live_counter :: "int \<Rightarrow> rateLimitMap \<Rightarrow> string \<Rightarrow> rate_entry option" where
  "live_counter now m userId =
     (case m userId of
        None \<Rightarrow> None
      | Some c \<Rightarrow> if now > resetTime c then None else Some c)"

text \<open>
  Two maps are related by \<open>stale_below tc\<close> when the second is the first with some counters
  removed, every removed counter having a reset time before \<open>tc\<close>.
\<close>

definition stale_below :: "int \<Rightarrow> rateLimitMap \<Rightarrow> rateLimitMap \<Rightarrow> bool" where
  "stale_below tc m m' \<longleftrightarrow>
     (\<forall>u. m' u = m u \<or> (m' u = None \<and> (\<exists>d. m u = Some d \<and> resetTime d < tc)))"

section \<open>SecurityManager: encrypt and decrypt\<close>

text \<open>
  A \<^verbatim>\<open>Buffer\<close> is a \<open>string\<close>: one \<open>char\<close> per byte. A JavaScript string is
  represented by its UTF-8 bytes, so \<^verbatim>\<open>'utf8'\<close> input and output encodings are the
  identity here.
\<close>

subsection \<open>Hex encoding of buffers\<close>

definition hex_digit :: "nat \<Rightarrow> char" where
  "hex_digit n = (if n < 10 then char_of (48 + n) else char_of (87 + n))"

text \<open>\<^verbatim>\<open>buf.toString('hex')\<close>: two lower-case digits per byte.\<close>

definition toString_hex :: "string \<Rightarrow> string" where
  "toString_hex buf =
     concat (map (\<lambda>c. [hex_digit ((of_char c :: nat) div 16), hex_digit ((of_char c :: nat) mod 16)]) buf)"

definition hex_value :: "char \<Rightarrow> nat option" where
  "hex_value c =
     (let n = (of_char c :: nat)
      in if 48 \<le> n \<and> n \<le> 57 then Some (n - 48)
         else if 97 \<le> n \<and> n \<le> 102 then Some (n - 87)
         else if 65 \<le> n \<and> n \<le> 70 then Some (n - 55)
         else None)"

text \<open>
  \<^verbatim>\<open>Buffer.from(s, 'hex')\<close>: pairs of hex digits are decoded from the left; decoding
  stops at the first pair that is not two hex digits, and a trailing single character is
  dropped.
\<close>

fun Buffer_from_hex :: "string \<Rightarrow> string" where
  "Buffer_from_hex (a # b # rest) =
     (case hex_value a of
        None \<Rightarrow> []
      | Some x \<Rightarrow>
          (case hex_value b of
             None \<Rightarrow> []
           | Some y \<Rightarrow> char_of (16 * x + y) # Buffer_from_hex rest))"
| "Buffer_from_hex _ = []"

subsection \<open>The calls into Node's \<^verbatim>\<open>crypto\<close> module and the configuration\<close>

text \<open>
  The key derivation and the AES-256-GCM cipher are library code; the model takes them as
  parameters. \<open>cipherGCM key iv aad text\<close> stands for the sequence
  \<^verbatim>\<open>createCipherGCM(algorithm, key, iv)\<close>, \<^verbatim>\<open>setAAD\<close>, \<^verbatim>\<open>update\<close>,
  \<^verbatim>\<open>final\<close>, \<^verbatim>\<open>getAuthTag\<close> and returns the ciphertext and the tag;
  \<open>decipherGCM key iv aad tag data\<close> stands for \<^verbatim>\<open>createDecipherGCM\<close>,
  \<^verbatim>\<open>setAAD\<close>, \<^verbatim>\<open>setAuthTag\<close>, \<^verbatim>\<open>update\<close>, \<^verbatim>\<open>final\<close> and returns the
  plaintext. \<open>None\<close> means that one of these calls throws. \<open>encryptionKey\<close> is
  \<^verbatim>\<open>config.security.encryptionKey\<close>. The module the program runs on is described
  in the section on the crypto module of Node below.
\<close>

record crypto =
  encryptionKey :: string
  scryptSync :: "string \<Rightarrow> string \<Rightarrow> nat \<Rightarrow> string"
  cipherGCM :: "string \<Rightarrow> string \<Rightarrow> string \<Rightarrow> string \<Rightarrow> (string \<times> string) option"
  decipherGCM :: "string \<Rightarrow> string \<Rightarrow> string \<Rightarrow> string \<Rightarrow> string \<Rightarrow> string option"

definition keyLength :: nat where "keyLength = 32"
definition ivLength :: nat where "ivLength = 16"

definition aad :: string where "aad = ''crossmint-discord-bot''"

text \<open>
  A thrown value: \<open>Error msg\<close> is \<^verbatim>\<open>new Error(msg)\<close> of the source, \<open>LibraryError\<close>
  whatever a library call throws.
\<close>

datatype error = Error string | LibraryError

text \<open>The operator log: \<^verbatim>\<open>logger.info\<close> and \<^verbatim>\<open>logger.error\<close> with their message.\<close>

datatype log_entry = LogInfo string | LogError string

subsection \<open>encrypt\<close>

text \<open>
  The body of the \<^verbatim>\<open>try\<close> block. \<open>iv\<close> is the value of
  \<^verbatim>\<open>crypto.randomBytes(this.ivLength)\<close> in this call.
\<close>

definition encrypt_try :: "crypto \<Rightarrow> string \<Rightarrow> string \<Rightarrow> error + string" where
  "encrypt_try cr iv text =
     (let key = scryptSync cr (encryptionKey cr) ''salt'' keyLength
      in case cipherGCM cr key iv aad text of
           None \<Rightarrow> Inl LibraryError
         | Some (encrypted, tag) \<Rightarrow>
             Inr (toString_hex iv @ '':'' @ toString_hex tag @ '':'' @ toString_hex encrypted))"

text \<open>
  \<^verbatim>\<open>encrypt(text)\<close> with its \<^verbatim>\<open>catch\<close>: the log lines written and the outcome
  (\<open>Inl\<close> is the rejection of the promise).
\<close>

definition encrypt :: "crypto \<Rightarrow> string \<Rightarrow> string \<Rightarrow> log_entry list \<times> (error + string)" where
  "encrypt cr iv text =
     (case encrypt_try cr iv text of
        Inl e \<Rightarrow> ([LogError ''Encryption failed:''], Inl (Error ''Failed to encrypt data''))
      | Inr blob \<Rightarrow> ([], Inr blob))"

subsection \<open>decrypt\<close>

text \<open>\<^verbatim>\<open>s.split(':')\<close> for a one-character separator; \<^verbatim>\<open>''.split(':')\<close> is \<^verbatim>\<open>['']\<close>.\<close>

fun split :: "char \<Rightarrow> string \<Rightarrow> string list" where
  "split sep [] = [[]]"
| "split sep (c # cs) =
     (if c = sep then [] # split sep cs
      else (case split sep cs of
              [] \<Rightarrow> [[c]]
            | w # ws \<Rightarrow> (c # w) # ws))"

text \<open>
  The body of the \<^verbatim>\<open>try\<close> block. The destructuring
  \<^verbatim>\<open>[ivHex, tagHex, encrypted] = encryptedData.split(':')\<close> takes the first three
  components and ignores any further one; a component that is missing is
  \<^verbatim>\<open>undefined\<close>, and \<^verbatim>\<open>!x\<close> holds of \<^verbatim>\<open>undefined\<close> and of the empty string.
  \<^verbatim>\<open>decipher.update(encrypted, 'hex', 'utf8')\<close> throws when the length of the hex
  string is odd, and decodes it like \<^verbatim>\<open>Buffer.from\<close> otherwise. Every throw of
  the block ends in the same \<^verbatim>\<open>catch\<close>, so their order is not observable.
\<close>

definition decrypt_try :: "crypto \<Rightarrow> string \<Rightarrow> error + string" where
  "decrypt_try cr encryptedData =
     (case split CHR '':'' encryptedData of
        ivHex # tagHex # encrypted # _ \<Rightarrow>
          if ivHex = [] \<or> tagHex = [] \<or> encrypted = []
          then Inl (Error ''Invalid encrypted data format'')
          else
            (let key = scryptSync cr (encryptionKey cr) ''salt'' keyLength;
                 iv = Buffer_from_hex ivHex;
                 tag = Buffer_from_hex tagHex
             in if odd (length encrypted) then Inl LibraryError
                else (case decipherGCM cr key iv aad tag (Buffer_from_hex encrypted) of
                        None \<Rightarrow> Inl LibraryError
                      | Some decrypted \<Rightarrow> Inr decrypted))
      | _ \<Rightarrow> Inl (Error ''Invalid encrypted data format''))"

text \<open>
  \<^verbatim>\<open>decrypt(encryptedData)\<close> with its \<^verbatim>\<open>catch\<close>, which replaces whatever was
  thrown by \<^verbatim>\<open>new Error('Failed to decrypt data')\<close>.
\<close>

definition decrypt :: "crypto \<Rightarrow> string \<Rightarrow> log_entry list \<times> (error + string)" where
  "decrypt cr encryptedData =
     (case decrypt_try cr encryptedData of
        Inl e \<Rightarrow> ([LogError ''Decryption failed:''], Inl (Error ''Failed to decrypt data''))
      | Inr decrypted \<Rightarrow> ([], Inr decrypted))"

section \<open>WalletManager\<close>

subsection \<open>Data\<close>

datatype wallet_type = evm | solana | cosmos | fuel | radix

text \<open>
  \<^verbatim>\<open>interface WalletProvider\<close>, as the object is at run time: a property that is absent
  or \<^verbatim>\<open>undefined\<close> is \<open>None\<close>. The interface requires \<^verbatim>\<open>type\<close>, \<^verbatim>\<open>privateKey\<close> and
  \<^verbatim>\<open>rpcUrl\<close>, but the object spread in \<^verbatim>\<open>updateWallet\<close> can store \<^verbatim>\<open>undefined\<close> in
  any property, and \<^verbatim>\<open>validateWalletProvider\<close> tests for their absence.
\<close>

record WalletProvider =
  type :: "wallet_type option"
  privateKey :: "string option"
  rpcUrl :: "string option"
  crossmintApiKey :: "string option"
  address :: "string option"
  chainId :: "int option"

text \<open>\<^verbatim>\<open>interface UserWallet\<close>; a \<^verbatim>\<open>Date\<close> is its millisecond timestamp.\<close>

record UserWallet =
  userId :: string
  walletProvider :: WalletProvider
  isActive :: bool
  createdAt :: int
  lastUsed :: int

text \<open>
  \<^verbatim>\<open>Partial<WalletProvider>\<close>, the argument of \<^verbatim>\<open>updateWallet\<close>. A field is \<open>None\<close>
  when the object does not carry the key, \<open>Some None\<close> when it carries the key with the
  value \<^verbatim>\<open>undefined\<close>, and \<open>Some (Some v)\<close> when it carries the key with the value \<open>v\<close>.
\<close>

record WalletProviderUpdates =
  upd_type :: "wallet_type option option"
  upd_privateKey :: "string option option"
  upd_rpcUrl :: "string option option"
  upd_crossmintApiKey :: "string option option"
  upd_address :: "string option option"
  upd_chainId :: "int option option"

text \<open>
  The state the operations act on: the \<^verbatim>\<open>wallets\<close> map of the manager and the lines
  written to the logger so far.
\<close>

record manager_state =
  wallets :: "string \<rightharpoonup> UserWallet"
  logs :: "log_entry list"

definition log :: "log_entry list \<Rightarrow> manager_state \<Rightarrow> manager_state" where
  "log ls st = st\<lparr>logs := logs st @ ls\<rparr>"

text \<open>
  The collaborators of the manager that are library code or call into it:
  \<open>Wallet_address k\<close> is \<^verbatim>\<open>new ethers.Wallet(k).address\<close> for the value \<open>k\<close> of
  \<^verbatim>\<open>walletProvider.privateKey\<close>, \<open>None\<close> when the constructor throws;
  \<open>initializeTools p plugins\<close> tells whether
  \<^verbatim>\<open>goatService.initializeTools({ walletProvider: p, plugins })\<close> resolves (\<open>True\<close>) or
  rejects (\<open>False\<close>).
\<close>

record services =
  Wallet_address :: "string option \<Rightarrow> string option"
  initializeTools :: "WalletProvider \<Rightarrow> string list \<Rightarrow> bool"

text \<open>Truthiness of an optional string: neither \<^verbatim>\<open>undefined\<close> nor the empty string.\<close>

definition truthy :: "string option \<Rightarrow> bool" where
  "truthy v = (case v of None \<Rightarrow> False | Some s \<Rightarrow> s \<noteq> [])"

text \<open>An optional string inside a template literal.\<close>

definition interpolate :: "string option \<Rightarrow> string" where
  "interpolate v = (case v of None \<Rightarrow> ''undefined'' | Some s \<Rightarrow> s)"

text \<open>
  \<^verbatim>\<open>encrypt\<close> and \<^verbatim>\<open>decrypt\<close> called with a value that may be \<^verbatim>\<open>undefined\<close>. In
  \<^verbatim>\<open>encrypt\<close> the call \<^verbatim>\<open>cipher.update(undefined, 'utf8', 'hex')\<close> throws, in
  \<^verbatim>\<open>decrypt\<close> the call \<^verbatim>\<open>encryptedData.split(':')\<close> does; both stand inside the
  \<^verbatim>\<open>try\<close> block, so the \<^verbatim>\<open>catch\<close> logs and throws its own error.
\<close>

definition encrypt_value ::
  "crypto \<Rightarrow> string \<Rightarrow> string option \<Rightarrow> log_entry list \<times> (error + string)" where
  "encrypt_value cr iv v =
     (case v of
        None \<Rightarrow> ([LogError ''Encryption failed:''], Inl (Error ''Failed to encrypt data''))
      | Some text \<Rightarrow> encrypt cr iv text)"

definition decrypt_value :: "crypto \<Rightarrow> string option \<Rightarrow> log_entry list \<times> (error + string)" where
  "decrypt_value cr v =
     (case v of
        None \<Rightarrow> ([LogError ''Decryption failed:''], Inl (Error ''Failed to decrypt data''))
      | Some encryptedData \<Rightarrow> decrypt cr encryptedData)"

subsection \<open>registerWallet\<close>

text \<open>
  \<^verbatim>\<open>walletProvider.crossmintApiKey ? await this.securityManager.encrypt(...) : undefined\<close>:
  the encrypted key, \<^verbatim>\<open>undefined\<close> for a key that is absent or empty, or the error
  thrown by \<^verbatim>\<open>encrypt\<close>.
\<close>

definition encrypt_if_present ::
  "crypto \<Rightarrow> string \<Rightarrow> string option \<Rightarrow> log_entry list \<times> (error + string option)" where
  "encrypt_if_present cr iv field =
     (case field of
        None \<Rightarrow> ([], Inr None)
      | Some k \<Rightarrow>
          if k = [] then ([], Inr None)
          else (case encrypt cr iv k of
                  (l, Inl e) \<Rightarrow> (l, Inl e)
                | (l, Inr blob) \<Rightarrow> (l, Inr (Some blob))))"

text \<open>
  The body of the outer \<^verbatim>\<open>try\<close> block, with the state at the point where it returns
  or throws. \<open>now\<close> is the clock reading of \<^verbatim>\<open>new Date()\<close>; \<open>iv1\<close> and \<open>iv2\<close> are
  the random bytes drawn by the first and the second call of \<^verbatim>\<open>encrypt\<close>.
\<close>

definition registerWallet_try ::
  "crypto \<Rightarrow> services \<Rightarrow> int \<Rightarrow> string \<Rightarrow> string \<Rightarrow> string \<Rightarrow> WalletProvider \<Rightarrow> manager_state
     \<Rightarrow> (error + bool) \<times> manager_state" where
  "registerWallet_try cr sv now iv1 iv2 uid provider st =
     (let derive = (type provider = Some evm \<and> \<not> truthy (address provider))
      in if derive \<and> Wallet_address sv (privateKey provider) = None
         then (Inl LibraryError, st)
         else
           (let walletAddress =
                  (if derive then Wallet_address sv (privateKey provider) else address provider);
                st1 = (if derive
                       then log [LogInfo (''Derived wallet address: '' @ interpolate walletAddress)] st
                       else st)
            in case encrypt_value cr iv1 (privateKey provider) of
                 (l1, Inl e) \<Rightarrow> (Inl e, log l1 st1)
               | (l1, Inr encryptedPrivateKey) \<Rightarrow>
                   (case encrypt_if_present cr iv2 (crossmintApiKey provider) of
                      (l2, Inl e) \<Rightarrow> (Inl e, log (l1 @ l2) st1)
                    | (l2, Inr encryptedCrossmintKey) \<Rightarrow>
                        (let completeWalletProvider =
                               provider\<lparr>privateKey := Some encryptedPrivateKey,
                                        crossmintApiKey := encryptedCrossmintKey,
                                        address := walletAddress\<rparr>;
                             userWallet =
                               \<lparr>userId = uid, walletProvider = completeWalletProvider,
                                isActive = True, createdAt = now, lastUsed = now\<rparr>;
                             st2 = (log (l1 @ l2) st1)\<lparr>wallets := (wallets st1)(uid \<mapsto> userWallet)\<rparr>;
                             st3 =
                               (if initializeTools sv (provider\<lparr>address := walletAddress\<rparr>)
                                     [''erc20'', ''uniswap'', ''crossmint'']
                                then log [LogInfo (''GOAT tools initialized for user '' @ uid)] st2
                                else log [LogError (''Failed to initialize GOAT tools for user ''
                                                     @ uid @ '':'')] st2)
                         in (Inr True,
                             log [LogInfo (''Wallet registered for user '' @ uid
                                            @ '' with address '' @ interpolate walletAddress)] st3)))))"

text \<open>\<^verbatim>\<open>registerWallet(userId, walletProvider)\<close>: the outer \<^verbatim>\<open>catch\<close> returns false.\<close>

definition registerWallet ::
  "crypto \<Rightarrow> services \<Rightarrow> int \<Rightarrow> string \<Rightarrow> string \<Rightarrow> string \<Rightarrow> WalletProvider \<Rightarrow> manager_state
     \<Rightarrow> bool \<times> manager_state" where
  "registerWallet cr sv now iv1 iv2 uid provider st =
     (case registerWallet_try cr sv now iv1 iv2 uid provider st of
        (Inl e, st') \<Rightarrow>
          (False, log [LogError (''Failed to register wallet for user '' @ uid @ '':'')] st')
      | (Inr r, st') \<Rightarrow> (r, st'))"

subsection \<open>getWallet\<close>

text \<open>
  \<^verbatim>\<open>userWallet.walletProvider.crossmintApiKey ? await this.securityManager.decrypt(...) : undefined\<close>.
\<close>

definition decrypt_if_present ::
  "crypto \<Rightarrow> string option \<Rightarrow> log_entry list \<times> (error + string option)" where
  "decrypt_if_present cr field =
     (case field of
        None \<Rightarrow> ([], Inr None)
      | Some k \<Rightarrow>
          if k = [] then ([], Inr None)
          else (case decrypt cr k of
                  (l, Inl e) \<Rightarrow> (l, Inl e)
                | (l, Inr d) \<Rightarrow> (l, Inr (Some d))))"

definition getWallet_try ::
  "crypto \<Rightarrow> int \<Rightarrow> string \<Rightarrow> manager_state \<Rightarrow> (error + WalletProvider option) \<times> manager_state" where
  "getWallet_try cr now uid st =
     (case wallets st uid of
        None \<Rightarrow> (Inr None, st)
      | Some userWallet \<Rightarrow>
          if \<not> isActive userWallet then (Inr None, st)
          else
            (case decrypt_value cr (privateKey (walletProvider userWallet)) of
               (l1, Inl e) \<Rightarrow> (Inl e, log l1 st)
             | (l1, Inr decryptedPrivateKey) \<Rightarrow>
                 (case decrypt_if_present cr (crossmintApiKey (walletProvider userWallet)) of
                    (l2, Inl e) \<Rightarrow> (Inl e, log (l1 @ l2) st)
                  | (l2, Inr decryptedCrossmintKey) \<Rightarrow>
                      (Inr (Some ((walletProvider userWallet)
                                    \<lparr>privateKey := Some decryptedPrivateKey,
                                     crossmintApiKey := decryptedCrossmintKey\<rparr>)),
                       (log (l1 @ l2) st)
                         \<lparr>wallets := (wallets st)(uid \<mapsto> userWallet\<lparr>lastUsed := now\<rparr>)\<rparr>))))"

text \<open>
  \<^verbatim>\<open>getWallet(userId)\<close>: the \<^verbatim>\<open>catch\<close> logs and returns \<^verbatim>\<open>null\<close>, so the promise
  never rejects; \<open>None\<close> is \<^verbatim>\<open>null\<close>.
\<close>

definition getWallet ::
  "crypto \<Rightarrow> int \<Rightarrow> string \<Rightarrow> manager_state \<Rightarrow> WalletProvider option \<times> manager_state" where
  "getWallet cr now uid st =
     (case getWallet_try cr now uid st of
        (Inl e, st') \<Rightarrow> (None, log [LogError (''Failed to get wallet for user '' @ uid @ '':'')] st')
      | (Inr r, st') \<Rightarrow> (r, st'))"

subsection \<open>hasWallet and removeWallet\<close>

definition hasWallet :: "string \<Rightarrow> manager_state \<Rightarrow> bool" where
  "hasWallet uid st = (case wallets st uid of None \<Rightarrow> False | Some userWallet \<Rightarrow> isActive userWallet)"

definition removeWallet :: "string \<Rightarrow> manager_state \<Rightarrow> bool \<times> manager_state" where
  "removeWallet uid st =
     (case wallets st uid of
        Some userWallet \<Rightarrow>
          (True,
           (log [LogInfo (''Wallet removed for user '' @ uid)] st)
             \<lparr>wallets := (wallets st)(uid \<mapsto> userWallet\<lparr>isActive := False\<rparr>)\<rparr>)
      | None \<Rightarrow> (False, st))"

subsection \<open>updateWallet\<close>

text \<open>
  \<^verbatim>\<open>if (updates.x) { updates.x = await this.securityManager.encrypt(updates.x) }\<close>: the
  field afterwards, or the error thrown by \<^verbatim>\<open>encrypt\<close>. The test is false for a key
  that is absent, for \<^verbatim>\<open>undefined\<close> and for the empty string, and the field is then
  left as it is.
\<close>

definition encrypt_update ::
  "crypto \<Rightarrow> string \<Rightarrow> string option option \<Rightarrow> log_entry list \<times> (error + string option option)" where
  "encrypt_update cr iv field =
     (case field of
        Some (Some k) \<Rightarrow>
          if k = [] then ([], Inr field)
          else (case encrypt cr iv k of
                  (l, Inl e) \<Rightarrow> (l, Inl e)
                | (l, Inr blob) \<Rightarrow> (l, Inr (Some (Some blob))))
      | _ \<Rightarrow> ([], Inr field))"

text \<open>
  The object spread \<^verbatim>\<open>{ ...provider, ...updates }\<close>: every key that \<^verbatim>\<open>updates\<close>
  carries overwrites the property, also with \<^verbatim>\<open>undefined\<close>.
\<close>

definition spread :: "WalletProvider \<Rightarrow> WalletProviderUpdates \<Rightarrow> WalletProvider" where
  "spread provider updates =
     \<lparr>type = (case upd_type updates of None \<Rightarrow> type provider | Some v \<Rightarrow> v),
      privateKey = (case upd_privateKey updates of None \<Rightarrow> privateKey provider | Some v \<Rightarrow> v),
      rpcUrl = (case upd_rpcUrl updates of None \<Rightarrow> rpcUrl provider | Some v \<Rightarrow> v),
      crossmintApiKey =
        (case upd_crossmintApiKey updates of None \<Rightarrow> crossmintApiKey provider | Some v \<Rightarrow> v),
      address = (case upd_address updates of None \<Rightarrow> address provider | Some v \<Rightarrow> v),
      chainId = (case upd_chainId updates of None \<Rightarrow> chainId provider | Some v \<Rightarrow> v)\<rparr>"

definition updateWallet_try ::
  "crypto \<Rightarrow> string \<Rightarrow> string \<Rightarrow> string \<Rightarrow> WalletProviderUpdates \<Rightarrow> manager_state
     \<Rightarrow> (error + bool) \<times> manager_state" where
  "updateWallet_try cr iv1 iv2 uid updates st =
     (case wallets st uid of
        None \<Rightarrow> (Inr False, st)
      | Some userWallet \<Rightarrow>
          if \<not> isActive userWallet then (Inr False, st)
          else
            (case encrypt_update cr iv1 (upd_privateKey updates) of
               (l1, Inl e) \<Rightarrow> (Inl e, log l1 st)
             | (l1, Inr pk) \<Rightarrow>
                 (case encrypt_update cr iv2 (upd_crossmintApiKey updates) of
                    (l2, Inl e) \<Rightarrow> (Inl e, log (l1 @ l2) st)
                  | (l2, Inr ck) \<Rightarrow>
                      (Inr True,
                       (log (l1 @ l2 @ [LogInfo (''Wallet updated for user '' @ uid)]) st)
                         \<lparr>wallets := (wallets st)(uid \<mapsto> userWallet
                            \<lparr>walletProvider :=
                               spread (walletProvider userWallet)
                                 (updates\<lparr>upd_privateKey := pk, upd_crossmintApiKey := ck\<rparr>)\<rparr>)\<rparr>))))"

definition updateWallet ::
  "crypto \<Rightarrow> string \<Rightarrow> string \<Rightarrow> string \<Rightarrow> WalletProviderUpdates \<Rightarrow> manager_state
     \<Rightarrow> bool \<times> manager_state" where
  "updateWallet cr iv1 iv2 uid updates st =
     (case updateWallet_try cr iv1 iv2 uid updates st of
        (Inl e, st') \<Rightarrow>
          (False, log [LogError (''Failed to update wallet for user '' @ uid @ '':'')] st')
      | (Inr r, st') \<Rightarrow> (r, st'))"

subsection \<open>validateWalletProvider\<close>

text \<open>
  \<^verbatim>\<open>s.replace(pattern, replacement)\<close> with a string pattern: the first occurrence of
  the pattern, wherever it is, is replaced; the rest of the string is kept.
\<close>

fun replace :: "string \<Rightarrow> string \<Rightarrow> string \<Rightarrow> string" where
  "replace pat rep [] = (if pat = [] then rep else [])"
| "replace pat rep (c # cs) =
     (if take (length pat) (c # cs) = pat then rep @ drop (length pat) (c # cs)
      else c # replace pat rep cs)"

definition is_hex_char :: "char \<Rightarrow> bool" where
  "is_hex_char c = (hex_value c \<noteq> None)"

text \<open>\<^verbatim>\<open>/^[0-9a-fA-F]{64}$/.test(s)\<close>.\<close>

definition privateKeyRegex_test :: "string \<Rightarrow> bool" where
  "privateKeyRegex_test s = (length s = 64 \<and> list_all is_hex_char s)"

text \<open>
  \<^verbatim>\<open>s.length\<close> counts UTF-16 code units. In the UTF-8 bytes of \<open>s\<close> a character of one
  to three bytes is one code unit and a character of four bytes is two: every byte that
  is not a continuation byte (\<^verbatim>\<open>10xxxxxx\<close>) counts once, and the lead byte of a four-byte
  sequence (\<^verbatim>\<open>11110xxx\<close>) once more.
\<close>

definition utf16_length :: "string \<Rightarrow> nat" where
  "utf16_length s =
     length (filter (\<lambda>c. (of_char c :: nat) < 128 \<or> 192 \<le> (of_char c :: nat)) s) +
     length (filter (\<lambda>c. 240 \<le> (of_char c :: nat)) s)"

text \<open>
  The two private validators. \<^verbatim>\<open>provider.privateKey.replace\<close> and
  \<^verbatim>\<open>provider.privateKey.length\<close> throw a \<^verbatim>\<open>TypeError\<close> when the key is
  \<^verbatim>\<open>undefined\<close>.
\<close>

definition validateEvmWallet :: "WalletProvider \<Rightarrow> error + bool" where
  "validateEvmWallet provider =
     (case privateKey provider of
        None \<Rightarrow> Inl LibraryError
      | Some k \<Rightarrow> Inr (privateKeyRegex_test (replace ''0x'' [] k)))"

definition validateSolanaWallet :: "WalletProvider \<Rightarrow> error + bool" where
  "validateSolanaWallet provider =
     (case privateKey provider of
        None \<Rightarrow> Inl LibraryError
      | Some k \<Rightarrow> Inr (utf16_length k \<ge> 32))"

text \<open>
  The body of the \<^verbatim>\<open>try\<close> block of \<^verbatim>\<open>validateWalletProvider(provider)\<close>:
  \<^verbatim>\<open>!provider.type\<close> holds of \<^verbatim>\<open>undefined\<close>, \<^verbatim>\<open>!provider.privateKey\<close> and
  \<^verbatim>\<open>!provider.rpcUrl\<close> hold of \<^verbatim>\<open>undefined\<close> and of the empty string.
\<close>

definition validateWalletProvider_try :: "WalletProvider \<Rightarrow> error + bool" where
  "validateWalletProvider_try provider =
     (if type provider = None \<or> \<not> truthy (privateKey provider) \<or> \<not> truthy (rpcUrl provider)
      then Inr False
      else (case type provider of
              Some evm \<Rightarrow> validateEvmWallet provider
            | Some solana \<Rightarrow> validateSolanaWallet provider
            | _ \<Rightarrow> Inr False))"

text \<open>\<^verbatim>\<open>validateWalletProvider(provider)\<close>: the \<^verbatim>\<open>catch\<close> returns false.\<close>

definition validateWalletProvider :: "WalletProvider \<Rightarrow> bool" where
  "validateWalletProvider provider =
     (case validateWalletProvider_try provider of
        Inl e \<Rightarrow> False
      | Inr r \<Rightarrow> r)"

subsection \<open>Sequences of operations\<close>

text \<open>
  A call of one of the four operations that change or read the registry, with the clock
  reading and the random bytes it consumes.
\<close>

datatype operation =
    Register int string string string WalletProvider
  | Get int string
  | Update string string string WalletProviderUpdates
  | Remove string

fun apply_operation :: "crypto \<Rightarrow> services \<Rightarrow> operation \<Rightarrow> manager_state \<Rightarrow> manager_state" where
  "apply_operation cr sv (Register now iv1 iv2 uid provider) st =
     snd (registerWallet cr sv now iv1 iv2 uid provider st)"
| "apply_operation cr sv (Get now uid) st = snd (getWallet cr now uid st)"
| "apply_operation cr sv (Update iv1 iv2 uid updates) st =
     snd (updateWallet cr iv1 iv2 uid updates st)"
| "apply_operation cr sv (Remove uid) st = snd (removeWallet uid st)"

definition run_operations ::
  "crypto \<Rightarrow> services \<Rightarrow> operation list \<Rightarrow> manager_state \<Rightarrow> manager_state" where
  "run_operations cr sv ops st = fold (apply_operation cr sv) ops st"

text \<open>The manager after the constructor: \<^verbatim>\<open>new Map()\<close> and nothing logged.\<close>

definition no_wallets :: manager_state where
  "no_wallets = \<lparr>wallets = Map.empty, logs = []\<rparr>"

section \<open>The properties in the words of the specification\<close>

text \<open>
  The invariant of the data model: every stored record holds its private key, and its
  API key when present, as a blob that \<^verbatim>\<open>encrypt\<close> produced.
\<close>

definition is_blob :: "crypto \<Rightarrow> string \<Rightarrow> bool" where
  "is_blob cr b \<longleftrightarrow> (\<exists>iv text. snd (encrypt cr iv text) = Inr b)"

definition encrypted_at_rest :: "crypto \<Rightarrow> manager_state \<Rightarrow> bool" where
  "encrypted_at_rest cr st \<longleftrightarrow>
     (\<forall>uid uw. wallets st uid = Some uw \<longrightarrow>
        (\<exists>b. privateKey (walletProvider uw) = Some b \<and> is_blob cr b) \<and>
        (\<forall>k. crossmintApiKey (walletProvider uw) = Some k \<longrightarrow> is_blob cr k))"


text \<open>
  An operation that is not an update carrying a secret field with the value
  \<^verbatim>\<open>undefined\<close> or the empty string.
\<close>

fun no_falsy_secret :: "operation \<Rightarrow> bool" where
  "no_falsy_secret (Update iv1 iv2 uid updates) =
     (upd_privateKey updates \<notin> {Some None, Some (Some [])} \<and>
      upd_crossmintApiKey updates \<noteq> Some (Some []))"
| "no_falsy_secret _ = True"

text \<open>
  A malformed blob: the split on the colon does not yield exactly three components, or a
  component is not hex, that is, not an even number of hex digits.
\<close>

definition valid_hex :: "string \<Rightarrow> bool" where
  "valid_hex s = (even (length s) \<and> list_all is_hex_char s)"

definition malformed_blob :: "string \<Rightarrow> bool" where
  "malformed_blob s =
     (length (split CHR '':'' s) \<noteq> 3 \<or> \<not> list_all valid_hex (split CHR '':'' s))"

text \<open>
  The key format: exactly 64 hexadecimal characters once an optional leading
  \<^verbatim>\<open>0x\<close> prefix is stripped.
\<close>

definition strip_0x_prefix :: "string \<Rightarrow> string" where
  "strip_0x_prefix s = (if take 2 s = ''0x'' then drop 2 s else s)"

definition spec_evm_key :: "string \<Rightarrow> bool" where
  "spec_evm_key s = (length (strip_0x_prefix s) = 64 \<and> list_all is_hex_char (strip_0x_prefix s))"

section \<open>The crypto module of Node\<close>

text \<open>
  \<^verbatim>\<open>import crypto from 'crypto'\<close> gives the module \<^verbatim>\<open>node:crypto\<close>. It exports
  \<^verbatim>\<open>createCipheriv\<close> and \<^verbatim>\<open>createDecipheriv\<close>, but neither \<^verbatim>\<open>createCipherGCM\<close>
  nor \<^verbatim>\<open>createDecipherGCM\<close>: in \<^verbatim>\<open>encrypt\<close> and \<^verbatim>\<open>decrypt\<close> the expressions
  \<^verbatim>\<open>crypto.createCipherGCM(...)\<close> and \<^verbatim>\<open>crypto.createDecipherGCM(...)\<close> call
  \<^verbatim>\<open>undefined\<close> and throw a \<^verbatim>\<open>TypeError\<close>, inside the \<^verbatim>\<open>try\<close> blocks, for every
  argument. \<open>lacks_gcm\<close> says so of a \<open>crypto\<close> record; it holds of the module the program
  runs on, whatever the configured key is and whatever \<^verbatim>\<open>scryptSync\<close> computes.
\<close>

definition lacks_gcm :: "crypto \<Rightarrow> bool" where
  "lacks_gcm cr \<longleftrightarrow>
     (\<forall>key iv ad text. cipherGCM cr key iv ad text = None) \<and>
     (\<forall>key iv ad tag data. decipherGCM cr key iv ad tag data = None)"

text \<open>
  \<open>node_crypto\<close> is that module with the default key of the configuration. The derived key
  never reaches a cipher, so \<open>scryptSync\<close> is given a constant value here.
\<close>

definition node_crypto :: crypto where
  "node_crypto =
     \<lparr>encryptionKey = ''default-encryption-key-change-this-in-production'',
      scryptSync = (\<lambda>password salt keylen. replicate keylen (CHR 0x00)),
      cipherGCM = (\<lambda>key iv ad text. None),
      decipherGCM = (\<lambda>key iv ad tag data. None)\<rparr>"

section \<open>Concrete inputs for running the model\<close>

text \<open>
  Several statements below hold for every cipher, also for one that works. To run them
  on concrete inputs \<open>demo_crypto\<close> is such a cipher, which \<open>node_crypto\<close> is not: the
  ciphertext is as long as the plaintext, the tag is not empty, \<open>decipherGCM\<close> inverts
  \<open>cipherGCM\<close> under the same key, IV, AAD and tag and throws under another tag. It gives
  no secrecy.
\<close>

definition demo_tag :: "string \<Rightarrow> string \<Rightarrow> string \<Rightarrow> string \<Rightarrow> string" where
  "demo_tag key iv ad data = take 1 key @ take 1 iv @ take 1 ad @ take 1 data @ ''#''"

definition demo_crypto :: crypto where
  "demo_crypto =
     \<lparr>encryptionKey = ''secret'',
      scryptSync = (\<lambda>password salt keylen. take keylen (password @ salt)),
      cipherGCM = (\<lambda>key iv ad text. Some (rev text, demo_tag key iv ad (rev text))),
      decipherGCM = (\<lambda>key iv ad tag data.
                       if tag = demo_tag key iv ad data then Some (rev data) else None)\<rparr>"

text \<open>
  \<open>demo_services\<close>: an address derivation that throws on a key that is absent or empty,
  and a tool initialisation that always rejects.
\<close>

definition demo_services :: services where
  "demo_services =
     \<lparr>Wallet_address = (\<lambda>k. if truthy k then Some (''0x'' @ interpolate k) else None),
      initializeTools = (\<lambda>p plugins. False)\<rparr>"

text \<open>
  A provider that \<^verbatim>\<open>validateWalletProvider\<close> accepts and that carries its address, so
  that \<^verbatim>\<open>registerWallet\<close> does not call \<^verbatim>\<open>ethers\<close> for it.
\<close>

definition valid_provider :: WalletProvider where
  "valid_provider =
     \<lparr>type = Some evm,
      privateKey = Some ''0x4646464646464646464646464646464646464646464646464646464646464646'',
      rpcUrl = Some ''https://rpc.example'',
      crossmintApiKey = Some ''sk_test'',
      address = Some ''0x9d8A62f656a8d1615C1294fd71e9CFb3E4855A4F'',
      chainId = Some 1\<rparr>"

text \<open>A provider with a short key, a 16-byte IV.\<close>

definition demo_provider :: WalletProvider where
  "demo_provider =
     \<lparr>type = Some evm, privateKey = Some ''abc'', rpcUrl = Some ''https://rpc.example'',
      crossmintApiKey = None, address = None, chainId = None\<rparr>"

definition demo_iv :: string where
  "demo_iv = ''0123456789abcdef''"

text \<open>
  Update objects that carry only \<^verbatim>\<open>privateKey: ''\<close>, and only
  \<^verbatim>\<open>privateKey: undefined\<close>.
\<close>

definition empty_key_update :: WalletProviderUpdates where
  "empty_key_update =
     \<lparr>upd_type = None, upd_privateKey = Some (Some []), upd_rpcUrl = None,
      upd_crossmintApiKey = None, upd_address = None, upd_chainId = None\<rparr>"

definition undefined_key_update :: WalletProviderUpdates where
  "undefined_key_update =
     \<lparr>upd_type = None, upd_privateKey = Some None, upd_rpcUrl = None,
      upd_crossmintApiKey = None, upd_address = None, upd_chainId = None\<rparr>"

text \<open>
  Managers that hold a record for \<open>''u''\<close>. The statements that use them are about every
  state of the \<^verbatim>\<open>wallets\<close> map. In \<open>corrupt_wallets\<close> the blob has a tag that does not
  verify under \<open>demo_crypto\<close>; \<open>one_wallet\<close> is the manager after \<open>demo_provider\<close> has been
  registered for \<open>''u''\<close> at time 1 with \<open>demo_crypto\<close> and \<open>demo_services\<close>.
\<close>

definition corrupt_wallets :: manager_state where
  "corrupt_wallets =
     \<lparr>wallets =
        [''u'' \<mapsto>
           \<lparr>userId = ''u'',
            walletProvider =
              demo_provider\<lparr>privateKey :=
                Some ''30313233343536373839616263646566:7330636324:636261''\<rparr>,
            isActive = True, createdAt = 1, lastUsed = 1\<rparr>],
      logs = []\<rparr>"

definition demo_wallet :: UserWallet where
  "demo_wallet =
     \<lparr>userId = ''u'',
      walletProvider =
        demo_provider\<lparr>privateKey := Some ''30313233343536373839616263646566:7330636323:636261'',
                      address := Some ''0xabc''\<rparr>,
      isActive = True, createdAt = 1, lastUsed = 1\<rparr>"

definition one_wallet :: manager_state where
  "one_wallet =
     \<lparr>wallets = [''u'' \<mapsto> demo_wallet],
      logs = [LogInfo ''Derived wallet address: 0xabc'',
              LogError ''Failed to initialize GOAT tools for user u:'',
              LogInfo ''Wallet registered for user u with address 0xabc'']\<rparr>"

section \<open>Properties of the rate limiter\<close>

text \<open>
  C5. With a positive limit, a call that finds no live counter for the identity stores a
  counter with count 1 and reset time \<open>now + windowMs\<close> and admits; a call that finds a live
  counter below the limit increments it and admits; a call that finds a live counter at or
  above the limit rejects and leaves the map as it was. With limit 3, starting without a
  live counter, three calls inside the window are admitted, a fourth inside the window is
  rejected, and a call after the window has elapsed is admitted again.
\<close>

theorem checkRateLimit_contract:
  "0 < limit \<longrightarrow>
   (live_counter now m uid = None \<longrightarrow>
      checkRateLimit now uid limit windowMs m =
        (True, m(uid \<mapsto> \<lparr>count = 1, resetTime = now + windowMs\<rparr>))) \<and>
   (\<forall>c. live_counter now m uid = Some c \<and> count c < limit \<longrightarrow>
      checkRateLimit now uid limit windowMs m =
        (True, m(uid \<mapsto> c\<lparr>count := count c + 1\<rparr>))) \<and>
   (\<forall>c. live_counter now m uid = Some c \<and> count c \<ge> limit \<longrightarrow>
      checkRateLimit now uid limit windowMs m = (False, m)) \<and>
   (live_counter t1 m uid = None \<and> t2 \<le> t1 + w \<and> t3 \<le> t1 + w \<and> t4 \<le> t1 + w \<and> t1 + w < t5 \<longrightarrow>
      fst (run_calls m
        [\<lparr>at = t1, who = uid, lim = 3, win = w\<rparr>,
         \<lparr>at = t2, who = uid, lim = 3, win = w\<rparr>,
         \<lparr>at = t3, who = uid, lim = 3, win = w\<rparr>,
         \<lparr>at = t4, who = uid, lim = 3, win = w\<rparr>,
         \<lparr>at = t5, who = uid, lim = 3, win = w\<rparr>]) = [True, True, True, False, True])"
  by (auto simp: checkRateLimit_def live_counter_def split: option.splits if_splits)

theorem checkRateLimit_contract_witness:
  "(0::int) < 3 \<and>
   live_counter 0 Map.empty ''u'' = None \<and>
   checkRateLimit 0 ''u'' 3 1000 Map.empty = (True, [''u'' \<mapsto> \<lparr>count = 1, resetTime = 1000\<rparr>]) \<and>
   live_counter 5 [''u'' \<mapsto> \<lparr>count = 2, resetTime = 1000\<rparr>] ''u'' = Some \<lparr>count = 2, resetTime = 1000\<rparr> \<and>
   checkRateLimit 5 ''u'' 3 1000 [''u'' \<mapsto> \<lparr>count = 2, resetTime = 1000\<rparr>] =
     (True, [''u'' \<mapsto> \<lparr>count = 3, resetTime = 1000\<rparr>]) \<and>
   live_counter 5 [''u'' \<mapsto> \<lparr>count = 3, resetTime = 1000\<rparr>] ''u'' = Some \<lparr>count = 3, resetTime = 1000\<rparr> \<and>
   checkRateLimit 5 ''u'' 3 1000 [''u'' \<mapsto> \<lparr>count = 3, resetTime = 1000\<rparr>] =
     (False, [''u'' \<mapsto> \<lparr>count = 3, resetTime = 1000\<rparr>]) \<and>
   (10::int) \<le> 0 + 1000 \<and> (20::int) \<le> 0 + 1000 \<and> (1000::int) \<le> 0 + 1000 \<and> (0::int) + 1000 < 1001 \<and>
   fst (run_calls Map.empty
        [\<lparr>at = 0, who = ''u'', lim = 3, win = 1000\<rparr>,
         \<lparr>at = 10, who = ''u'', lim = 3, win = 1000\<rparr>,
         \<lparr>at = 20, who = ''u'', lim = 3, win = 1000\<rparr>,
         \<lparr>at = 1000, who = ''u'', lim = 3, win = 1000\<rparr>,
         \<lparr>at = 1001, who = ''u'', lim = 3, win = 1000\<rparr>]) = [True, True, True, False, True]"
proof -
  let ?two = "[''u'' \<mapsto> \<lparr>count = 2, resetTime = 1000\<rparr>]"
  let ?three = "[''u'' \<mapsto> \<lparr>count = 3, resetTime = 1000\<rparr>]"
  have pos: "(0::int) < 3" by simp
  have none: "live_counter 0 Map.empty ''u'' = None"
    and below: "live_counter 5 ?two ''u'' = Some \<lparr>count = 2, resetTime = 1000\<rparr>"
    and full: "live_counter 5 ?three ''u'' = Some \<lparr>count = 3, resetTime = 1000\<rparr>"
    by (simp_all add: live_counter_def)
  have times: "(10::int) \<le> 0 + 1000" "(20::int) \<le> 0 + 1000" "(1000::int) \<le> 0 + 1000"
    "(0::int) + 1000 < 1001"
    by simp_all
  note fresh = checkRateLimit_contract [of 3 0 Map.empty "''u''" 1000 0 10 1000 20 1000 1001]
  note incr = checkRateLimit_contract [of 3 5 ?two "''u''" 1000 0 10 1000 20 1000 1001]
  note deny = checkRateLimit_contract [of 3 5 ?three "''u''" 1000 0 10 1000 20 1000 1001]
  from fresh pos none
  have a: "checkRateLimit 0 ''u'' 3 1000 Map.empty =
      (True, [''u'' \<mapsto> \<lparr>count = 1, resetTime = 1000\<rparr>])"
    by simp
  from fresh pos none times
  have e: "fst (run_calls Map.empty
        [\<lparr>at = 0, who = ''u'', lim = 3, win = 1000\<rparr>,
         \<lparr>at = 10, who = ''u'', lim = 3, win = 1000\<rparr>,
         \<lparr>at = 20, who = ''u'', lim = 3, win = 1000\<rparr>,
         \<lparr>at = 1000, who = ''u'', lim = 3, win = 1000\<rparr>,
         \<lparr>at = 1001, who = ''u'', lim = 3, win = 1000\<rparr>]) = [True, True, True, False, True]"
    by blast
  from incr pos below
  have b: "checkRateLimit 5 ''u'' 3 1000 ?two = (True, [''u'' \<mapsto> \<lparr>count = 3, resetTime = 1000\<rparr>])"
    by simp
  from deny pos full
  have c: "checkRateLimit 5 ''u'' 3 1000 ?three = (False, ?three)"
    by simp
  show ?thesis by (intro conjI pos none a below b full c times e)
qed

text \<open>The loop of \<^verbatim>\<open>cleanupRateLimits\<close> and its closed form.\<close>

lemma cleanup_loop_pointwise:
  "cleanup_loop now keys m u = (if u \<in> set keys then cleanupRateLimits now m u else m u)"
proof (induction keys arbitrary: m)
  case Nil
  then show ?case by simp
next
  case (Cons k keys)
  show ?case
  proof (cases "m k")
    case None
    then show ?thesis
      by (simp add: Cons.IH cleanupRateLimits_def)
  next
    case (Some d)
    show ?thesis
    proof (cases "now > resetTime d")
      case True
      with Some show ?thesis
        by (simp add: Cons.IH cleanupRateLimits_def)
    next
      case False
      with Some show ?thesis
        by (simp add: Cons.IH cleanupRateLimits_def)
    qed
  qed
qed

lemma cleanup_loop_eq:
  assumes "dom m \<subseteq> set keys"
  shows "cleanup_loop now keys m = cleanupRateLimits now m"
proof
  fix u
  show "cleanup_loop now keys m u = cleanupRateLimits now m u"
  proof (cases "u \<in> set keys")
    case True
    then show ?thesis by (simp add: cleanup_loop_pointwise)
  next
    case False
    with assms have "m u = None" by auto
    with False show ?thesis by (simp add: cleanup_loop_pointwise cleanupRateLimits_def)
  qed
qed

lemma stale_below_cleanup: "stale_below tc m (cleanupRateLimits tc m)"
  by (auto simp: stale_below_def cleanupRateLimits_def split: option.splits)

lemma stale_below_step:
  assumes "stale_below tc m m'" and "tc \<le> now"
  shows "fst (checkRateLimit now u l w m') = fst (checkRateLimit now u l w m)"
    and "stale_below tc (snd (checkRateLimit now u l w m)) (snd (checkRateLimit now u l w m'))"
proof -
  from assms(1) have u: "m' u = m u \<or> (m' u = None \<and> (\<exists>d. m u = Some d \<and> resetTime d < tc))"
    by (simp add: stale_below_def)
  then show "fst (checkRateLimit now u l w m') = fst (checkRateLimit now u l w m)"
    using assms(2) by (cases "m u"; cases "m' u") (auto simp: checkRateLimit_def)
  show "stale_below tc (snd (checkRateLimit now u l w m)) (snd (checkRateLimit now u l w m'))"
    unfolding stale_below_def
  proof
    fix v
    from assms(1) have v: "m' v = m v \<or> (m' v = None \<and> (\<exists>d. m v = Some d \<and> resetTime d < tc))"
      by (simp add: stale_below_def)
    show "snd (checkRateLimit now u l w m') v = snd (checkRateLimit now u l w m) v \<or>
          (snd (checkRateLimit now u l w m') v = None \<and>
           (\<exists>d. snd (checkRateLimit now u l w m) v = Some d \<and> resetTime d < tc))"
    proof (cases "v = u")
      case True
      with u assms(2) show ?thesis
        by (cases "m u"; cases "m' u") (auto simp: checkRateLimit_def)
    next
      case False
      with v show ?thesis
        by (cases "m u"; cases "m' u") (auto simp: checkRateLimit_def)
    qed
  qed
qed

lemma stale_below_run:
  "stale_below tc m m' \<Longrightarrow> \<forall>c\<in>set calls. tc \<le> at c \<Longrightarrow>
     fst (run_calls m' calls) = fst (run_calls m calls) \<and>
     stale_below tc (snd (run_calls m calls)) (snd (run_calls m' calls))"
proof (induction calls arbitrary: m m')
  case Nil
  then show ?case by simp
next
  case (Cons c cs)
  from Cons.prems have le: "tc \<le> at c" and rest: "\<forall>c\<in>set cs. tc \<le> at c" by simp_all
  note st = stale_below_step [OF Cons.prems(1) le, of "who c" "lim c" "win c"]
  from Cons.IH [OF st(2) rest] st(1) show ?case
    by (simp add: case_prod_unfold Let_def)
qed

text \<open>
  C7. \<^verbatim>\<open>cleanupRateLimits\<close> run at time \<open>tc\<close> leaves at every identity exactly the live
  counter of that time, that is, it removes the counters whose reset time has passed and
  no other. A \<^verbatim>\<open>checkRateLimit\<close> call at a time not before \<open>tc\<close> returns the same
  boolean after the cleanup as without it, and so does every call of any further sequence
  of calls at times not before \<open>tc\<close>, for any identities, limits and windows.
\<close>

theorem cleanup_unobservable:
  "(\<forall>u. cleanupRateLimits tc m u = live_counter tc m u) \<and>
   (tc \<le> now \<longrightarrow>
      fst (checkRateLimit now uid limit windowMs (cleanupRateLimits tc m)) =
      fst (checkRateLimit now uid limit windowMs m)) \<and>
   ((\<forall>c\<in>set calls. tc \<le> at c) \<longrightarrow>
      fst (run_calls (cleanupRateLimits tc m) calls) = fst (run_calls m calls))"
proof (intro conjI allI impI)
  fix u show "cleanupRateLimits tc m u = live_counter tc m u"
    by (simp add: cleanupRateLimits_def live_counter_def)
next
  assume "tc \<le> now"
  then show "fst (checkRateLimit now uid limit windowMs (cleanupRateLimits tc m)) =
      fst (checkRateLimit now uid limit windowMs m)"
    using stale_below_step(1) [OF stale_below_cleanup] by blast
next
  assume "\<forall>c\<in>set calls. tc \<le> at c"
  then show "fst (run_calls (cleanupRateLimits tc m) calls) = fst (run_calls m calls)"
    using stale_below_run [OF stale_below_cleanup] by blast
qed

theorem cleanup_unobservable_witness:
  "(50::int) \<le> 60 \<and>
   fst (checkRateLimit 60 ''u'' 1 100
          (cleanupRateLimits 50 [''u'' \<mapsto> \<lparr>count = 1, resetTime = 40\<rparr>, ''v'' \<mapsto> \<lparr>count = 1, resetTime = 90\<rparr>])) =
     fst (checkRateLimit 60 ''u'' 1 100
            [''u'' \<mapsto> \<lparr>count = 1, resetTime = 40\<rparr>, ''v'' \<mapsto> \<lparr>count = 1, resetTime = 90\<rparr>]) \<and>
   list_all (\<lambda>c. (50::int) \<le> at c)
     [\<lparr>at = 60, who = ''u'', lim = 1, win = 100\<rparr>, \<lparr>at = 70, who = ''v'', lim = 1, win = 100\<rparr>,
      \<lparr>at = 80, who = ''u'', lim = 1, win = 100\<rparr>] \<and>
   cleanupRateLimits 50 [''u'' \<mapsto> \<lparr>count = 1, resetTime = 40\<rparr>, ''v'' \<mapsto> \<lparr>count = 1, resetTime = 90\<rparr>] ''u'' = None \<and>
   cleanupRateLimits 50 [''u'' \<mapsto> \<lparr>count = 1, resetTime = 40\<rparr>, ''v'' \<mapsto> \<lparr>count = 1, resetTime = 90\<rparr>] ''v''
     = Some \<lparr>count = 1, resetTime = 90\<rparr> \<and>
   fst (run_calls (cleanupRateLimits 50 [''u'' \<mapsto> \<lparr>count = 1, resetTime = 40\<rparr>, ''v'' \<mapsto> \<lparr>count = 1, resetTime = 90\<rparr>])
      [\<lparr>at = 60, who = ''u'', lim = 1, win = 100\<rparr>, \<lparr>at = 70, who = ''v'', lim = 1, win = 100\<rparr>,
       \<lparr>at = 80, who = ''u'', lim = 1, win = 100\<rparr>]) = [True, False, False] \<and>
   fst (run_calls [''u'' \<mapsto> \<lparr>count = 1, resetTime = 40\<rparr>, ''v'' \<mapsto> \<lparr>count = 1, resetTime = 90\<rparr>]
      [\<lparr>at = 60, who = ''u'', lim = 1, win = 100\<rparr>, \<lparr>at = 70, who = ''v'', lim = 1, win = 100\<rparr>,
       \<lparr>at = 80, who = ''u'', lim = 1, win = 100\<rparr>]) = [True, False, False]"
proof -
  let ?m = "[''u'' \<mapsto> \<lparr>count = 1, resetTime = 40\<rparr>, ''v'' \<mapsto> \<lparr>count = 1, resetTime = 90\<rparr>]"
  let ?calls = "[\<lparr>at = 60, who = ''u'', lim = 1, win = 100\<rparr>, \<lparr>at = 70, who = ''v'', lim = 1, win = 100\<rparr>,
                 \<lparr>at = 80, who = ''u'', lim = 1, win = 100\<rparr>]"
  have times: "\<forall>c\<in>set ?calls. (50::int) \<le> at c" by simp
  have plain: "fst (run_calls ?m ?calls) = [True, False, False]"
    by (simp add: checkRateLimit_def)
  from cleanup_unobservable [of 50 ?m 60 "''u''" 1 100 ?calls] times
  have "fst (run_calls (cleanupRateLimits 50 ?m) ?calls) = fst (run_calls ?m ?calls)"
    by blast
  with plain have swept: "fst (run_calls (cleanupRateLimits 50 ?m) ?calls) = [True, False, False]"
    by simp
  have gone: "cleanupRateLimits 50 ?m ''u'' = None"
    and kept: "cleanupRateLimits 50 ?m ''v'' = Some \<lparr>count = 1, resetTime = 90\<rparr>"
    by (simp_all add: cleanupRateLimits_def)
  have later: "(50::int) \<le> 60" by simp
  from cleanup_unobservable [of 50 ?m 60 "''u''" 1 100 ?calls] later
  have single: "fst (checkRateLimit 60 ''u'' 1 100 (cleanupRateLimits 50 ?m)) =
      fst (checkRateLimit 60 ''u'' 1 100 ?m)"
    by blast
  have all_later: "list_all (\<lambda>c. (50::int) \<le> at c) ?calls" by simp
  show ?thesis by (intro conjI later single all_later gone kept swept plain)
qed

section \<open>Properties of encrypt and decrypt\<close>

subsection \<open>Hex encoding and splitting\<close>

lemma of_char_lt_256: "(of_char c :: nat) < 256"
proof -
  have "(of_char c :: nat) mod 256 < 256" by simp
  then show ?thesis by (simp only: of_char_mod_256)
qed

lemma high_nibble_lt_16: "(of_char c :: nat) div 16 < 16"
  using of_char_lt_256 [of c] by (simp add: div_less_iff_less_mult)

lemma hex_value_hex_digit: "n < 16 \<Longrightarrow> hex_value (hex_digit n) = Some n"
  by (auto simp: hex_value_def hex_digit_def Let_def)

lemma hex_digit_not_colon: "n < 16 \<Longrightarrow> CHR '':'' \<noteq> hex_digit n"
proof
  assume n: "n < 16" and "CHR '':'' = hex_digit n"
  then have "(of_char (hex_digit n) :: nat) = of_char CHR '':''" by simp
  with n show False by (simp add: hex_digit_def split: if_splits)
qed

lemma Buffer_from_hex_toString_hex: "Buffer_from_hex (toString_hex buf) = buf"
  by (induction buf) (simp_all add: toString_hex_def hex_value_hex_digit high_nibble_lt_16)

lemma colon_notin_toString_hex: "CHR '':'' \<notin> set (toString_hex buf)"
  by (induction buf) (simp_all add: toString_hex_def hex_digit_not_colon high_nibble_lt_16)

lemma toString_hex_eq_Nil: "toString_hex buf = [] \<longleftrightarrow> buf = []"
  by (cases buf) (simp_all add: toString_hex_def)

lemma split_no_sep: "sep \<notin> set a \<Longrightarrow> split sep a = [a]"
  by (induction a) auto

lemma split_append_sep: "sep \<notin> set a \<Longrightarrow> split sep (a @ sep # rest) = a # split sep rest"
  by (induction a) auto

lemma split_blob:
  "split CHR '':'' (toString_hex iv @ CHR '':'' # toString_hex tag @ CHR '':'' # toString_hex ct) =
     [toString_hex iv, toString_hex tag, toString_hex ct]"
  by (simp add: split_append_sep split_no_sep colon_notin_toString_hex)

lemma even_length_toString_hex: "even (length (toString_hex buf))"
  by (induction buf) (simp_all add: toString_hex_def)

lemma encrypt_Some:
  "cipherGCM cr (scryptSync cr (encryptionKey cr) ''salt'' keyLength) iv aad text = Some (ct, tag) \<Longrightarrow>
   encrypt cr iv text = ([], Inr (toString_hex iv @ '':'' @ toString_hex tag @ '':'' @ toString_hex ct))"
  by (simp add: encrypt_def encrypt_try_def)

lemma encrypt_None:
  "cipherGCM cr (scryptSync cr (encryptionKey cr) ''salt'' keyLength) iv aad text = None \<Longrightarrow>
   encrypt cr iv text = ([LogError ''Encryption failed:''], Inl (Error ''Failed to encrypt data''))"
  by (simp add: encrypt_def encrypt_try_def)

lemma decrypt_blob:
  assumes "iv \<noteq> []" "tag \<noteq> []" "ct \<noteq> []"
  shows "decrypt cr (toString_hex iv @ '':'' @ toString_hex tag @ '':'' @ toString_hex ct) =
     (case decipherGCM cr (scryptSync cr (encryptionKey cr) ''salt'' keyLength) iv aad tag ct of
        None \<Rightarrow> ([LogError ''Decryption failed:''], Inl (Error ''Failed to decrypt data''))
      | Some text \<Rightarrow> ([], Inr text))"
  using assms
  by (simp add: decrypt_def decrypt_try_def split_blob toString_hex_eq_Nil
      Buffer_from_hex_toString_hex even_length_toString_hex split: option.splits)

lemma decrypt_encrypt_nonempty:
  assumes "cipherGCM cr (scryptSync cr (encryptionKey cr) ''salt'' keyLength) iv aad text = Some (ct, tag)"
    and "decipherGCM cr (scryptSync cr (encryptionKey cr) ''salt'' keyLength) iv aad tag ct = Some text"
    and "iv \<noteq> []" "tag \<noteq> []" "ct \<noteq> []"
  shows "\<exists>blob. encrypt cr iv text = ([], Inr blob) \<and> decrypt cr blob = ([], Inr text)"
  using assms decrypt_blob [of iv tag ct cr] by (simp add: encrypt_Some)

lemma decrypt_failure_is_generic:
  "snd (decrypt cr s) = Inl e \<Longrightarrow> e = Error ''Failed to decrypt data''"
  by (auto simp: decrypt_def split: sum.splits)

subsection \<open>On the crypto module of Node\<close>

text \<open>
  Without \<^verbatim>\<open>createCipherGCM\<close> and \<^verbatim>\<open>createDecipherGCM\<close> every call of \<^verbatim>\<open>encrypt\<close>
  and every call of \<^verbatim>\<open>decrypt\<close> rejects, whatever the argument.
\<close>

lemma lacks_gcm_node_crypto: "lacks_gcm node_crypto"
  by (simp add: lacks_gcm_def node_crypto_def)

lemma encrypt_without_gcm:
  "lacks_gcm cr \<Longrightarrow>
   encrypt cr iv text = ([LogError ''Encryption failed:''], Inl (Error ''Failed to encrypt data''))"
  by (simp add: lacks_gcm_def encrypt_None)

lemma decrypt_try_without_gcm: "lacks_gcm cr \<Longrightarrow> \<exists>e. decrypt_try cr s = Inl e"
  by (auto simp: lacks_gcm_def decrypt_try_def Let_def split: list.splits)

lemma decrypt_without_gcm:
  "lacks_gcm cr \<Longrightarrow>
   decrypt cr s = ([LogError ''Decryption failed:''], Inl (Error ''Failed to decrypt data''))"
  using decrypt_try_without_gcm [of cr s] by (auto simp: decrypt_def)

subsection \<open>Evaluation on the concrete cipher\<close>

text \<open>\<open>char_of\<close> on a numeral, bit by bit, for the simplifier.\<close>

lemma char_of_nat_bits:
  "char_of (n::nat) = Char (odd n) (odd (n div 2)) (odd (n div 4)) (odd (n div 8))
     (odd (n div 16)) (odd (n div 32)) (odd (n div 64)) (odd (n div 128))"
  by (simp add: char_of_def bit_iff_odd)

lemmas demo_eval = demo_crypto_def demo_tag_def aad_def keyLength_def toString_hex_def
  hex_digit_def hex_value_def char_of_nat_bits

lemma demo_encrypt_empty:
  "encrypt demo_crypto ''0123456789abcdef'' [] = ([], Inr ''30313233343536373839616263646566:73306323:'')"
  by (simp add: encrypt_def encrypt_try_def demo_eval)

lemma demo_encrypt_abc:
  "encrypt demo_crypto ''0123456789abcdef'' ''abc'' =
     ([], Inr ''30313233343536373839616263646566:7330636323:636261'')"
  by (simp add: encrypt_def encrypt_try_def demo_eval)

lemma demo_decrypt_abc:
  "decrypt demo_crypto ''30313233343536373839616263646566:7330636323:636261'' = ([], Inr ''abc'')"
  by (simp add: decrypt_def decrypt_try_def demo_eval)

lemma demo_decrypt_wrong_tag:
  "decrypt demo_crypto ''30313233343536373839616263646566:7330636324:636261'' =
     ([LogError ''Decryption failed:''], Inl (Error ''Failed to decrypt data''))"
  by (simp add: decrypt_def decrypt_try_def demo_eval)

subsection \<open>Round trip\<close>

text \<open>
  C3. The claim is that \<open>decrypt (encrypt p) = p\<close> for every plaintext \<open>p\<close>. Lemma
  \<open>decrypt_encrypt_nonempty\<close> above gives the round trip whenever the cipher returns a
  non-empty ciphertext. For the empty plaintext a cipher whose ciphertext is as long as
  the plaintext (as that of GCM is) returns the empty ciphertext; \<^verbatim>\<open>encrypt\<close> then builds
  a blob that ends in a colon, its third component is the empty string, \<^verbatim>\<open>!encrypted\<close>
  holds in \<^verbatim>\<open>decrypt\<close>, and \<^verbatim>\<open>decrypt\<close> throws instead of returning the empty
  plaintext. On the crypto module of Node \<^verbatim>\<open>encrypt\<close> rejects the empty plaintext like
  every other (lemma \<open>encrypt_without_gcm\<close>), so the round trip fails there as well.
\<close>

theorem encrypt_empty_not_decryptable:
  assumes "cipherGCM cr (scryptSync cr (encryptionKey cr) ''salt'' keyLength) iv aad [] = Some ([], tag)"
  shows "\<exists>blob. snd (encrypt cr iv []) = Inr blob \<and>
           snd (decrypt cr blob) = Inl (Error ''Failed to decrypt data'')"
proof -
  let ?blob = "toString_hex iv @ '':'' @ toString_hex tag @ '':'' @ toString_hex []"
  have "snd (encrypt cr iv []) = Inr ?blob"
    using assms by (simp add: encrypt_Some)
  moreover have "snd (decrypt cr ?blob) = Inl (Error ''Failed to decrypt data'')"
    by (simp add: decrypt_def decrypt_try_def split_blob) (simp add: toString_hex_def)
  ultimately show ?thesis by blast
qed

theorem encrypt_empty_not_decryptable_witness:
  "cipherGCM demo_crypto (scryptSync demo_crypto (encryptionKey demo_crypto) ''salt'' keyLength)
     demo_iv aad [] = Some ([], ''s0c#'') \<and>
   snd (encrypt demo_crypto demo_iv []) = Inr ''30313233343536373839616263646566:73306323:'' \<and>
   snd (decrypt demo_crypto ''30313233343536373839616263646566:73306323:'') =
     Inl (Error ''Failed to decrypt data'') \<and>
   (\<exists>blob. snd (encrypt demo_crypto demo_iv []) = Inr blob \<and>
           snd (decrypt demo_crypto blob) = Inl (Error ''Failed to decrypt data'')) \<and>
   snd (encrypt node_crypto demo_iv []) = Inl (Error ''Failed to encrypt data'')"
proof -
  have node: "snd (encrypt node_crypto demo_iv []) = Inl (Error ''Failed to encrypt data'')"
    by (simp add: encrypt_without_gcm [OF lacks_gcm_node_crypto])
  have seal: "cipherGCM demo_crypto
      (scryptSync demo_crypto (encryptionKey demo_crypto) ''salt'' keyLength) demo_iv aad [] =
      Some ([], ''s0c#'')"
    by (simp add: demo_eval demo_iv_def)
  have enc: "snd (encrypt demo_crypto demo_iv []) = Inr ''30313233343536373839616263646566:73306323:''"
    by (simp add: demo_encrypt_empty demo_iv_def)
  have dec: "snd (decrypt demo_crypto ''30313233343536373839616263646566:73306323:'') =
     Inl (Error ''Failed to decrypt data'')"
    by (simp add: decrypt_def decrypt_try_def)
  note general = encrypt_empty_not_decryptable [OF seal]
  show ?thesis by (intro conjI seal enc dec general node)
qed

subsection \<open>Malformed blobs\<close>

text \<open>
  For every cipher: a blob of fewer than three components, or with an empty component
  among the first three, or with a third component of odd length, is rejected.
\<close>

lemma decrypt_try_rejects:
  assumes "length (split CHR '':'' s) < 3 \<or> [] \<in> set (take 3 (split CHR '':'' s)) \<or>
           odd (length (split CHR '':'' s ! 2))"
  shows "\<exists>e. decrypt_try cr s = Inl e"
proof (cases "split CHR '':'' s")
  case Nil
  then show ?thesis by (simp add: decrypt_try_def)
next
  case c1: (Cons x xs)
  show ?thesis
  proof (cases xs)
    case Nil
    with c1 show ?thesis by (simp add: decrypt_try_def)
  next
    case c2: (Cons y ys)
    show ?thesis
    proof (cases ys)
      case Nil
      with c1 c2 show ?thesis by (simp add: decrypt_try_def)
    next
      case (Cons z zs)
      with c1 c2 assms have "x = [] \<or> y = [] \<or> z = [] \<or> odd (length z)" by auto
      with c1 c2 Cons show ?thesis by (auto simp: decrypt_try_def Let_def)
    qed
  qed
qed

lemma decrypt_rejects:
  assumes "length (split CHR '':'' s) < 3 \<or> [] \<in> set (take 3 (split CHR '':'' s)) \<or>
           odd (length (split CHR '':'' s ! 2))"
  shows "decrypt cr s = ([LogError ''Decryption failed:''], Inl (Error ''Failed to decrypt data''))"
  using decrypt_try_rejects [OF assms, of cr] by (auto simp: decrypt_def)

text \<open>
  C6, as claimed, fails in the kind of the error: \<^verbatim>\<open>decrypt\<close> has one
  \<^verbatim>\<open>catch\<close>, which throws \<^verbatim>\<open>new Error('Failed to decrypt data')\<close> whatever was thrown
  in the block. The input \<open>''abc''\<close> is malformed, the other input is three hex components
  of 16, 16 and 3 bytes; both calls end with the same log line and the same error, so the
  error of the malformed input is not distinct from that of any other failure.
\<close>

theorem decrypt_error_not_distinct:
  "malformed_blob ''abc'' \<and>
   \<not> malformed_blob
        ''00112233445566778899aabbccddeeff:00112233445566778899aabbccddeeff:616263'' \<and>
   decrypt node_crypto ''abc'' =
     ([LogError ''Decryption failed:''], Inl (Error ''Failed to decrypt data'')) \<and>
   decrypt node_crypto
     ''00112233445566778899aabbccddeeff:00112233445566778899aabbccddeeff:616263'' =
     decrypt node_crypto ''abc''"
proof -
  have a: "malformed_blob ''abc''"
    by (simp add: malformed_blob_def)
  have b: "\<not> malformed_blob
      ''00112233445566778899aabbccddeeff:00112233445566778899aabbccddeeff:616263''"
    by (simp add: malformed_blob_def valid_hex_def is_hex_char_def hex_value_def)
  have c: "decrypt node_crypto s =
      ([LogError ''Decryption failed:''], Inl (Error ''Failed to decrypt data''))" for s
    by (rule decrypt_without_gcm [OF lacks_gcm_node_crypto])
  show ?thesis by (intro conjI a b) (simp_all only: c)
qed

text \<open>
  C6, amended. For every input string given to \<^verbatim>\<open>decrypt\<close>: if the split on the colon
  does not yield exactly three components, or a component is not valid hex,
  \<^verbatim>\<open>decrypt\<close> fails and returns no data; the error is
  \<^verbatim>\<open>Error('Failed to decrypt data')\<close>, the one error that \<^verbatim>\<open>decrypt\<close> throws for
  every input it rejects.
\<close>

theorem decrypt_malformed_fails:
  assumes "lacks_gcm cr" and "malformed_blob s"
  shows "decrypt cr s =
           ([LogError ''Decryption failed:''], Inl (Error ''Failed to decrypt data'')) \<and>
         (\<forall>d. snd (decrypt cr s) \<noteq> Inr d) \<and>
         (\<forall>s' e. snd (decrypt cr s') = Inl e \<longrightarrow> e = Error ''Failed to decrypt data'')"
proof (intro conjI allI impI)
  show "decrypt cr s = ([LogError ''Decryption failed:''], Inl (Error ''Failed to decrypt data''))"
    using assms(1) by (rule decrypt_without_gcm)
  then show "snd (decrypt cr s) \<noteq> Inr d" for d by simp
  show "e = Error ''Failed to decrypt data''" if "snd (decrypt cr s') = Inl e" for s' e
    using that by (rule decrypt_failure_is_generic)
qed

theorem decrypt_malformed_fails_witness:
  "lacks_gcm node_crypto \<and>
   malformed_blob ''abc'' \<and>
   decrypt node_crypto ''abc'' =
     ([LogError ''Decryption failed:''], Inl (Error ''Failed to decrypt data'')) \<and>
   malformed_blob ''0011:2233:4455:6677'' \<and>
   decrypt node_crypto ''0011:2233:4455:6677'' =
     ([LogError ''Decryption failed:''], Inl (Error ''Failed to decrypt data'')) \<and>
   malformed_blob ''0011:zz33:4455'' \<and>
   decrypt node_crypto ''0011:zz33:4455'' =
     ([LogError ''Decryption failed:''], Inl (Error ''Failed to decrypt data'')) \<and>
   malformed_blob ''0011:2233:445'' \<and>
   decrypt node_crypto ''0011:2233:445'' =
     ([LogError ''Decryption failed:''], Inl (Error ''Failed to decrypt data''))"
proof -
  note node = lacks_gcm_node_crypto
  have m1: "malformed_blob ''abc''" and m2: "malformed_blob ''0011:2233:4455:6677''"
    by (simp_all add: malformed_blob_def)
  have m3: "malformed_blob ''0011:zz33:4455''" and m4: "malformed_blob ''0011:2233:445''"
    by (simp_all add: malformed_blob_def valid_hex_def is_hex_char_def hex_value_def)
  note r1 = decrypt_malformed_fails [OF node m1, THEN conjunct1]
  note r2 = decrypt_malformed_fails [OF node m2, THEN conjunct1]
  note r3 = decrypt_malformed_fails [OF node m3, THEN conjunct1]
  note r4 = decrypt_malformed_fails [OF node m4, THEN conjunct1]
  show ?thesis by (intro conjI node m1 m2 m3 m4 r1 r2 r3 r4)
qed

section \<open>Properties of the wallet manager\<close>

subsection \<open>registerWallet\<close>

lemma encrypt_value_without_gcm:
  "lacks_gcm cr \<Longrightarrow>
   encrypt_value cr iv v = ([LogError ''Encryption failed:''], Inl (Error ''Failed to encrypt data''))"
  by (simp add: encrypt_value_def encrypt_without_gcm split: option.splits)

lemma decrypt_value_without_gcm:
  "lacks_gcm cr \<Longrightarrow>
   decrypt_value cr v = ([LogError ''Decryption failed:''], Inl (Error ''Failed to decrypt data''))"
  by (simp add: decrypt_value_def decrypt_without_gcm split: option.splits)

text \<open>
  For a cipher that works: when the required phase succeeds, the call returns true and
  stores the record, and a rejecting tool initialisation only adds a line to the error
  log.
\<close>

lemma registerWallet_success:
  assumes der: "type provider = Some evm \<and> \<not> truthy (address provider) \<longrightarrow>
                  Wallet_address sv (privateKey provider) \<noteq> None"
    and pk: "snd (encrypt_value cr iv1 (privateKey provider)) = Inr epk"
    and ck: "snd (encrypt_if_present cr iv2 (crossmintApiKey provider)) = Inr eck"
  shows "fst (registerWallet cr sv now iv1 iv2 uid provider st) = True"
    and "wallets (snd (registerWallet cr sv now iv1 iv2 uid provider st)) =
           (wallets st)(uid \<mapsto>
             \<lparr>userId = uid,
              walletProvider = provider
                \<lparr>privateKey := Some epk, crossmintApiKey := eck,
                 address := (if type provider = Some evm \<and> \<not> truthy (address provider)
                             then Wallet_address sv (privateKey provider) else address provider)\<rparr>,
              isActive = True, createdAt = now, lastUsed = now\<rparr>)"
    and "\<not> initializeTools sv
             (provider\<lparr>address := (if type provider = Some evm \<and> \<not> truthy (address provider)
                             then Wallet_address sv (privateKey provider) else address provider)\<rparr>)
             [''erc20'', ''uniswap'', ''crossmint''] \<Longrightarrow>
         LogError (''Failed to initialize GOAT tools for user '' @ uid @ '':'')
           \<in> set (logs (snd (registerWallet cr sv now iv1 iv2 uid provider st)))"
proof -
  obtain l1 where pk': "encrypt_value cr iv1 (privateKey provider) = (l1, Inr epk)"
    using pk by (cases "encrypt_value cr iv1 (privateKey provider)") simp
  obtain l2 where ck': "encrypt_if_present cr iv2 (crossmintApiKey provider) = (l2, Inr eck)"
    using ck by (cases "encrypt_if_present cr iv2 (crossmintApiKey provider)") simp
  show "fst (registerWallet cr sv now iv1 iv2 uid provider st) = True"
    using der by (auto simp: registerWallet_def registerWallet_try_def Let_def pk' ck' log_def)
  show "wallets (snd (registerWallet cr sv now iv1 iv2 uid provider st)) =
           (wallets st)(uid \<mapsto>
             \<lparr>userId = uid,
              walletProvider = provider
                \<lparr>privateKey := Some epk, crossmintApiKey := eck,
                 address := (if type provider = Some evm \<and> \<not> truthy (address provider)
                             then Wallet_address sv (privateKey provider) else address provider)\<rparr>,
              isActive = True, createdAt = now, lastUsed = now\<rparr>)"
    using der by (auto simp: registerWallet_def registerWallet_try_def Let_def pk' ck' log_def)
  show "LogError (''Failed to initialize GOAT tools for user '' @ uid @ '':'')
           \<in> set (logs (snd (registerWallet cr sv now iv1 iv2 uid provider st)))"
    if "\<not> initializeTools sv
             (provider\<lparr>address := (if type provider = Some evm \<and> \<not> truthy (address provider)
                             then Wallet_address sv (privateKey provider) else address provider)\<rparr>)
             [''erc20'', ''uniswap'', ''crossmint'']"
    using der that by (auto simp: registerWallet_def registerWallet_try_def Let_def pk' ck' log_def)
qed

lemma demo_register:
  "registerWallet demo_crypto demo_services 1 demo_iv demo_iv ''u'' demo_provider no_wallets =
     (True, one_wallet)"
  by (simp add: registerWallet_def registerWallet_try_def Let_def demo_iv_def demo_provider_def
      demo_encrypt_abc encrypt_value_def encrypt_if_present_def demo_services_def truthy_def
      log_def no_wallets_def one_wallet_def demo_wallet_def interpolate_def)

lemma registerWallet_failure:
  assumes "(type provider = Some evm \<and> \<not> truthy (address provider) \<and>
              Wallet_address sv (privateKey provider) = None) \<or>
           (\<exists>e. snd (encrypt_value cr iv1 (privateKey provider)) = Inl e) \<or>
           (\<exists>e. snd (encrypt_if_present cr iv2 (crossmintApiKey provider)) = Inl e)"
  shows "fst (registerWallet cr sv now iv1 iv2 uid provider st) = False \<and>
         wallets (snd (registerWallet cr sv now iv1 iv2 uid provider st)) = wallets st"
proof (cases "type provider = Some evm \<and> \<not> truthy (address provider) \<and>
              Wallet_address sv (privateKey provider) = None")
  case True
  then show ?thesis
    by (simp add: registerWallet_def registerWallet_try_def Let_def log_def)
next
  case noderive: False
  obtain l1 r1 where pk: "encrypt_value cr iv1 (privateKey provider) = (l1, r1)"
    by (cases "encrypt_value cr iv1 (privateKey provider)")
  obtain l2 r2 where ck: "encrypt_if_present cr iv2 (crossmintApiKey provider) = (l2, r2)"
    by (cases "encrypt_if_present cr iv2 (crossmintApiKey provider)")
  from assms noderive pk ck have bad: "(\<exists>e. r1 = Inl e) \<or> (\<exists>e. r2 = Inl e)" by auto
  show ?thesis
  proof (cases r1)
    case (Inl e)
    with noderive pk show ?thesis
      by (auto simp: registerWallet_def registerWallet_try_def Let_def log_def)
  next
    case (Inr epk)
    with bad obtain e where "r2 = Inl e" by auto
    with Inr noderive pk ck show ?thesis
      by (auto simp: registerWallet_def registerWallet_try_def Let_def log_def)
  qed
qed




text \<open>
  C10. When the required phase of \<^verbatim>\<open>registerWallet\<close> fails (the address derivation
  throws, or the encryption of the private key or of the API key throws), the call returns
  false and the \<^verbatim>\<open>wallets\<close> map is the one before the call: no record is created or
  replaced, and a record stored earlier for the user is untouched.
\<close>

theorem registerWallet_required_phase_failure:
  assumes "(type provider = Some evm \<and> \<not> truthy (address provider) \<and>
              Wallet_address sv (privateKey provider) = None) \<or>
           (\<exists>e. snd (encrypt_value cr iv1 (privateKey provider)) = Inl e) \<or>
           (\<exists>e. snd (encrypt_if_present cr iv2 (crossmintApiKey provider)) = Inl e)"
  shows "fst (registerWallet cr sv now iv1 iv2 uid provider st) = False \<and>
         wallets (snd (registerWallet cr sv now iv1 iv2 uid provider st)) = wallets st"
  using registerWallet_failure [OF assms] .

theorem registerWallet_required_phase_failure_witness:
  "type (demo_provider\<lparr>privateKey := Some []\<rparr>) = Some evm \<and>
   \<not> truthy (address (demo_provider\<lparr>privateKey := Some []\<rparr>)) \<and>
   Wallet_address demo_services (privateKey (demo_provider\<lparr>privateKey := Some []\<rparr>)) = None \<and>
   fst (registerWallet node_crypto demo_services 9 demo_iv demo_iv ''u''
          (demo_provider\<lparr>privateKey := Some []\<rparr>) one_wallet) = False \<and>
   wallets (snd (registerWallet node_crypto demo_services 9 demo_iv demo_iv ''u''
          (demo_provider\<lparr>privateKey := Some []\<rparr>) one_wallet)) ''u'' = Some demo_wallet \<and>
   snd (encrypt_value node_crypto demo_iv (privateKey valid_provider))
     = Inl (Error ''Failed to encrypt data'') \<and>
   fst (registerWallet node_crypto demo_services 9 demo_iv demo_iv ''u'' valid_provider one_wallet)
     = False \<and>
   wallets (snd (registerWallet node_crypto demo_services 9 demo_iv demo_iv ''u'' valid_provider
                   one_wallet)) ''u'' = Some demo_wallet"
proof -
  let ?p = "demo_provider\<lparr>privateKey := Some []\<rparr>"
  let ?cr = "node_crypto"
  have ty: "type ?p = Some evm" and ad: "\<not> truthy (address ?p)"
    and wa: "Wallet_address demo_services (privateKey ?p) = None"
    by (simp_all add: demo_provider_def truthy_def demo_services_def)
  have enc: "snd (encrypt_value ?cr demo_iv (privateKey valid_provider)) =
      Inl (Error ''Failed to encrypt data'')"
    by (simp add: encrypt_value_without_gcm [OF lacks_gcm_node_crypto])
  have stored: "wallets one_wallet ''u'' = Some demo_wallet"
    by (simp add: one_wallet_def)
  from ty ad wa have h1:
    "(type ?p = Some evm \<and> \<not> truthy (address ?p) \<and>
        Wallet_address demo_services (privateKey ?p) = None) \<or>
     (\<exists>e. snd (encrypt_value ?cr demo_iv (privateKey ?p)) = Inl e) \<or>
     (\<exists>e. snd (encrypt_if_present ?cr demo_iv (crossmintApiKey ?p)) = Inl e)"
    by blast
  from enc have h2:
    "(type valid_provider = Some evm \<and> \<not> truthy (address valid_provider) \<and>
        Wallet_address demo_services (privateKey valid_provider) = None) \<or>
     (\<exists>e. snd (encrypt_value ?cr demo_iv (privateKey valid_provider)) = Inl e) \<or>
     (\<exists>e. snd (encrypt_if_present ?cr demo_iv (crossmintApiKey valid_provider)) = Inl e)"
    by blast
  note t1 = registerWallet_required_phase_failure [OF h1, of 9 "''u''" one_wallet]
  note t2 = registerWallet_required_phase_failure [OF h2, of 9 "''u''" one_wallet]
  from t1 stored have a: "fst (registerWallet ?cr demo_services 9 demo_iv demo_iv ''u'' ?p one_wallet) = False"
    and b: "wallets (snd (registerWallet ?cr demo_services 9 demo_iv demo_iv ''u'' ?p one_wallet)) ''u''
            = Some demo_wallet"
    by simp_all
  from t2 stored have c: "fst (registerWallet ?cr demo_services 9 demo_iv demo_iv ''u'' valid_provider one_wallet) = False"
    and d: "wallets (snd (registerWallet ?cr demo_services 9 demo_iv demo_iv ''u'' valid_provider one_wallet)) ''u''
            = Some demo_wallet"
    by simp_all
  show ?thesis by (intro conjI ty ad wa enc a b c d)
qed

subsection \<open>getWallet\<close>

text \<open>
  C1, as claimed, fails: \<^verbatim>\<open>getWallet\<close> catches the error thrown by \<^verbatim>\<open>decrypt\<close> and
  returns \<^verbatim>\<open>null\<close>. Here the active record of \<open>''u''\<close> holds a blob that
  \<^verbatim>\<open>decrypt\<close> rejects, on the crypto module of Node as it rejects every blob there, and
  under \<open>demo_crypto\<close> because the tag does not verify.
\<close>

theorem getWallet_swallows_decrypt_failure:
  "hasWallet ''u'' corrupt_wallets \<and>
   snd (decrypt node_crypto ''30313233343536373839616263646566:7330636324:636261'') =
     Inl (Error ''Failed to decrypt data'') \<and>
   fst (getWallet node_crypto 2 ''u'' corrupt_wallets) = None \<and>
   snd (decrypt demo_crypto ''30313233343536373839616263646566:7330636324:636261'') =
     Inl (Error ''Failed to decrypt data'') \<and>
   fst (getWallet demo_crypto 2 ''u'' corrupt_wallets) = None"
  by (simp add: demo_decrypt_wrong_tag decrypt_without_gcm [OF lacks_gcm_node_crypto]
      getWallet_def getWallet_try_def decrypt_value_def corrupt_wallets_def
      demo_provider_def hasWallet_def log_def)

text \<open>
  C1, amended. When the active record of a user holds a private-key blob, or a non-empty
  API-key blob, that \<^verbatim>\<open>decrypt\<close> rejects, \<^verbatim>\<open>getWallet\<close> returns \<^verbatim>\<open>null\<close>, the
  value it also returns for a missing or inactive record; it returns no secret material,
  leaves every record as it was (\<^verbatim>\<open>lastUsed\<close> included) and writes the failure to the
  error log.
\<close>

theorem getWallet_decrypt_failure_returns_null:
  assumes uw: "wallets st uid = Some uw" and act: "isActive uw"
    and bad: "(\<exists>e. snd (decrypt_value cr (privateKey (walletProvider uw))) = Inl e) \<or>
              (\<exists>e. snd (decrypt_if_present cr (crossmintApiKey (walletProvider uw))) = Inl e)"
  shows "fst (getWallet cr now uid st) = None \<and>
         wallets (snd (getWallet cr now uid st)) = wallets st \<and>
         LogError (''Failed to get wallet for user '' @ uid @ '':'')
           \<in> set (logs (snd (getWallet cr now uid st)))"
proof -
  obtain l1 r1 where pk: "decrypt_value cr (privateKey (walletProvider uw)) = (l1, r1)"
    by (cases "decrypt_value cr (privateKey (walletProvider uw))")
  obtain l2 r2 where ck: "decrypt_if_present cr (crossmintApiKey (walletProvider uw)) = (l2, r2)"
    by (cases "decrypt_if_present cr (crossmintApiKey (walletProvider uw))")
  from bad pk ck have bad': "(\<exists>e. r1 = Inl e) \<or> (\<exists>e. r2 = Inl e)" by auto
  show ?thesis
  proof (cases r1)
    case (Inl e)
    with uw act pk show ?thesis
      by (simp add: getWallet_def getWallet_try_def log_def)
  next
    case (Inr d)
    with bad' obtain e where "r2 = Inl e" by auto
    with Inr uw act pk ck show ?thesis
      by (simp add: getWallet_def getWallet_try_def log_def)
  qed
qed

theorem getWallet_decrypt_failure_returns_null_witness:
  "wallets corrupt_wallets ''u'' \<noteq> None \<and>
   isActive (the (wallets corrupt_wallets ''u'')) \<and>
   snd (decrypt_value node_crypto (privateKey (walletProvider (the (wallets corrupt_wallets ''u''))))) =
     Inl (Error ''Failed to decrypt data'') \<and>
   fst (getWallet node_crypto 2 ''u'' corrupt_wallets) = None \<and>
   wallets (snd (getWallet node_crypto 2 ''u'' corrupt_wallets)) = wallets corrupt_wallets \<and>
   LogError ''Failed to get wallet for user u:''
     \<in> set (logs (snd (getWallet node_crypto 2 ''u'' corrupt_wallets))) \<and>
   snd (decrypt_value demo_crypto (privateKey (walletProvider (the (wallets corrupt_wallets ''u''))))) =
     Inl (Error ''Failed to decrypt data'') \<and>
   fst (getWallet demo_crypto 2 ''u'' corrupt_wallets) = None \<and>
   wallets (snd (getWallet demo_crypto 2 ''u'' corrupt_wallets)) = wallets corrupt_wallets \<and>
   LogError ''Failed to get wallet for user u:''
     \<in> set (logs (snd (getWallet demo_crypto 2 ''u'' corrupt_wallets)))"
proof -
  let ?uw = "the (wallets corrupt_wallets ''u'')"
  have stored: "wallets corrupt_wallets ''u'' = Some ?uw" and ne: "wallets corrupt_wallets ''u'' \<noteq> None"
    by (simp_all add: corrupt_wallets_def)
  have act: "isActive ?uw" by (simp add: corrupt_wallets_def)
  have dec: "snd (decrypt_value demo_crypto (privateKey (walletProvider ?uw))) =
     Inl (Error ''Failed to decrypt data'')"
    by (simp add: corrupt_wallets_def decrypt_value_def demo_decrypt_wrong_tag)
  have dec': "snd (decrypt_value node_crypto (privateKey (walletProvider ?uw))) =
     Inl (Error ''Failed to decrypt data'')"
    by (simp add: decrypt_value_without_gcm [OF lacks_gcm_node_crypto])
  from dec have bad: "(\<exists>e. snd (decrypt_value demo_crypto (privateKey (walletProvider ?uw))) = Inl e) \<or>
      (\<exists>e. snd (decrypt_if_present demo_crypto (crossmintApiKey (walletProvider ?uw))) = Inl e)"
    by blast
  from dec' have bad': "(\<exists>e. snd (decrypt_value node_crypto (privateKey (walletProvider ?uw))) = Inl e) \<or>
      (\<exists>e. snd (decrypt_if_present node_crypto (crossmintApiKey (walletProvider ?uw))) = Inl e)"
    by blast
  note inst = getWallet_decrypt_failure_returns_null [OF stored act bad, of 2]
  note inst' = getWallet_decrypt_failure_returns_null [OF stored act bad', of 2]
  from inst have a: "fst (getWallet demo_crypto 2 ''u'' corrupt_wallets) = None"
    and b: "wallets (snd (getWallet demo_crypto 2 ''u'' corrupt_wallets)) = wallets corrupt_wallets"
    and c: "LogError ''Failed to get wallet for user u:''
              \<in> set (logs (snd (getWallet demo_crypto 2 ''u'' corrupt_wallets)))"
    by simp_all
  from inst' have a': "fst (getWallet node_crypto 2 ''u'' corrupt_wallets) = None"
    and b': "wallets (snd (getWallet node_crypto 2 ''u'' corrupt_wallets)) = wallets corrupt_wallets"
    and c': "LogError ''Failed to get wallet for user u:''
              \<in> set (logs (snd (getWallet node_crypto 2 ''u'' corrupt_wallets)))"
    by simp_all
  show ?thesis by (intro conjI ne act dec dec' a b c a' b' c')
qed

text \<open>
  What \<^verbatim>\<open>getWallet\<close> returns when both decryptions succeed: the stored provider with the
  two fields replaced by their decryptions, and \<^verbatim>\<open>lastUsed\<close> refreshed.
\<close>

lemma getWallet_success:
  assumes "wallets st uid = Some uw" and "isActive uw"
    and "decrypt_value cr (privateKey (walletProvider uw)) = (l1, Inr d)"
    and "decrypt_if_present cr (crossmintApiKey (walletProvider uw)) = (l2, Inr dc)"
  shows "getWallet cr now uid st =
           (Some ((walletProvider uw)\<lparr>privateKey := Some d, crossmintApiKey := dc\<rparr>),
            (log (l1 @ l2) st)\<lparr>wallets := (wallets st)(uid \<mapsto> uw\<lparr>lastUsed := now\<rparr>)\<rparr>)"
  using assms by (simp add: getWallet_def getWallet_try_def)


lemma demo_getWallet:
  "fst (getWallet demo_crypto 2 ''u'' one_wallet) = Some (demo_provider\<lparr>address := Some ''0xabc''\<rparr>)"
  by (simp add: getWallet_def getWallet_try_def one_wallet_def demo_wallet_def demo_decrypt_abc
      decrypt_value_def decrypt_if_present_def demo_provider_def)

subsection \<open>removeWallet and hasWallet\<close>

text \<open>
  C4, as claimed, fails: the record stays in the map after the first removal, and
  \<^verbatim>\<open>removeWallet\<close> tests only whether a record is there, so the repeated call returns
  true as well.
\<close>

theorem removeWallet_repeat_returns_true:
  "wallets one_wallet ''u'' = Some demo_wallet \<and>
   fst (removeWallet ''u'' one_wallet) = True \<and>
   fst (removeWallet ''u'' (snd (removeWallet ''u'' one_wallet))) = True"
  by (simp add: removeWallet_def one_wallet_def log_def)

text \<open>
  C4, amended. For a user with a stored record, \<^verbatim>\<open>removeWallet\<close> returns true and sets
  \<^verbatim>\<open>isActive\<close> of the record to false; an immediately repeated call returns true again
  and leaves the record inactive; \<^verbatim>\<open>hasWallet\<close> is false after either call. For a user
  without a record, \<^verbatim>\<open>removeWallet\<close> returns false and changes nothing.
\<close>

theorem removeWallet_contract:
  "(wallets st uid = Some uw \<longrightarrow>
      fst (removeWallet uid st) = True \<and>
      wallets (snd (removeWallet uid st)) = (wallets st)(uid \<mapsto> uw\<lparr>isActive := False\<rparr>) \<and>
      fst (removeWallet uid (snd (removeWallet uid st))) = True \<and>
      wallets (snd (removeWallet uid (snd (removeWallet uid st)))) =
        (wallets st)(uid \<mapsto> uw\<lparr>isActive := False\<rparr>) \<and>
      \<not> hasWallet uid (snd (removeWallet uid st)) \<and>
      \<not> hasWallet uid (snd (removeWallet uid (snd (removeWallet uid st))))) \<and>
   (wallets st uid = None \<longrightarrow> removeWallet uid st = (False, st))"
  by (simp add: removeWallet_def hasWallet_def log_def)

theorem removeWallet_contract_witness:
  "wallets one_wallet ''u'' = Some demo_wallet \<and>
   hasWallet ''u'' one_wallet \<and>
   fst (removeWallet ''u'' one_wallet) = True \<and>
   wallets (snd (removeWallet ''u'' one_wallet)) ''u'' = Some (demo_wallet\<lparr>isActive := False\<rparr>) \<and>
   \<not> hasWallet ''u'' (snd (removeWallet ''u'' one_wallet)) \<and>
   wallets no_wallets ''u'' = None \<and>
   removeWallet ''u'' no_wallets = (False, no_wallets)"
proof -
  have stored: "wallets one_wallet ''u'' = Some demo_wallet" by (simp add: one_wallet_def)
  have has: "hasWallet ''u'' one_wallet"
    by (simp add: hasWallet_def one_wallet_def demo_wallet_def)
  have none: "wallets no_wallets ''u'' = None" by (simp add: no_wallets_def)
  note i1 = removeWallet_contract [of one_wallet "''u''" demo_wallet]
  note i2 = removeWallet_contract [of no_wallets "''u''" demo_wallet]
  from i1 stored have a: "fst (removeWallet ''u'' one_wallet) = True"
    and b: "wallets (snd (removeWallet ''u'' one_wallet)) ''u'' = Some (demo_wallet\<lparr>isActive := False\<rparr>)"
    and c: "\<not> hasWallet ''u'' (snd (removeWallet ''u'' one_wallet))"
    by simp_all
  from i2 none have d: "removeWallet ''u'' no_wallets = (False, no_wallets)" by simp
  show ?thesis by (intro conjI stored has a b c none d)
qed

subsection \<open>validateWalletProvider\<close>

lemma replace_0x_hex: "list_all is_hex_char s \<Longrightarrow> replace ''0x'' [] s = s"
proof (induction s)
  case Nil
  then show ?case by simp
next
  case (Cons c cs)
  have "take 2 (c # cs) \<noteq> ''0x''"
  proof
    assume "take 2 (c # cs) = ''0x''"
    then obtain r where "cs = CHR ''x'' # r" by (cases cs) auto
    with Cons.prems show False by (simp add: is_hex_char_def hex_value_def)
  qed
  with Cons show ?case by auto
qed

lemma replace_0x_prefix: "replace ''0x'' [] (''0x'' @ s) = s"
  by simp

text \<open>
  A key the specification accepts is accepted by the code.
\<close>

lemma validateWalletProvider_complete:
  assumes "type provider = Some evm" and "truthy (rpcUrl provider)"
    and "privateKey provider = Some k" and "spec_evm_key k"
  shows "validateWalletProvider provider"
proof -
  from assms(4) have ne: "k \<noteq> []"
    by (auto simp: spec_evm_key_def strip_0x_prefix_def)
  show ?thesis
  proof (cases "take 2 k = ''0x''")
    case True
    then have "k = ''0x'' @ drop 2 k"
      by (metis append_take_drop_id)
    then have "replace ''0x'' [] k = drop 2 k"
      using replace_0x_prefix by metis
    with assms True ne show ?thesis
      by (auto simp: validateWalletProvider_def validateWalletProvider_try_def
          validateEvmWallet_def privateKeyRegex_test_def spec_evm_key_def strip_0x_prefix_def
          truthy_def)
  next
    case False
    with assms have "list_all is_hex_char k" and "length k = 64"
      by (simp_all add: spec_evm_key_def strip_0x_prefix_def)
    then show ?thesis using assms(1,2,3) ne
      by (auto simp: validateWalletProvider_def validateWalletProvider_try_def
          validateEvmWallet_def privateKeyRegex_test_def replace_0x_hex truthy_def)
  qed
qed

text \<open>
  C9. The claim is that for an \<^verbatim>\<open>evm\<close> provider \<^verbatim>\<open>validateWalletProvider\<close> returns
  true exactly when the fields are present and the key is 64 hex characters after an
  optional leading \<^verbatim>\<open>0x\<close> is stripped. \<^verbatim>\<open>privateKey.replace('0x', '')\<close> removes the
  first \<^verbatim>\<open>0x\<close> wherever it stands, so the 66-character key below, with \<^verbatim>\<open>0x\<close> after
  its first character, is accepted although it does not have the claimed format.
\<close>

theorem validateWalletProvider_accepts_inner_0x:
  "type demo_provider = Some evm \<and> rpcUrl demo_provider = Some ''https://rpc.example'' \<and>
   \<not> spec_evm_key ''a0xaaaaaaaaaaaaaaaaaaaaaaaaaaaaaaaaaaaaaaaaaaaaaaaaaaaaaaaaaaaaaaa'' \<and>
   validateWalletProvider
     (demo_provider\<lparr>privateKey :=
        Some ''a0xaaaaaaaaaaaaaaaaaaaaaaaaaaaaaaaaaaaaaaaaaaaaaaaaaaaaaaaaaaaaaaa''\<rparr>) = True"
  by (simp add: validateWalletProvider_def validateWalletProvider_try_def validateEvmWallet_def
      privateKeyRegex_test_def demo_provider_def is_hex_char_def hex_value_def spec_evm_key_def
      strip_0x_prefix_def truthy_def)

subsection \<open>Encryption at rest along sequences of operations\<close>

text \<open>
  First for every cipher, also one that works. Then every operation keeps the invariant,
  except an update that carries a secret field with the value \<^verbatim>\<open>undefined\<close> or the
  empty string: \<^verbatim>\<open>updateWallet\<close> encrypts a field only under
  \<^verbatim>\<open>if (updates.privateKey)\<close> and spreads the update into the record whatever the
  test gave.
\<close>

lemma encrypt_not_empty: "snd (encrypt cr iv text) \<noteq> Inr []"
  by (auto simp: encrypt_def encrypt_try_def Let_def split: option.splits)

lemma is_blob_encrypt: "snd (encrypt cr iv text) = Inr b \<Longrightarrow> is_blob cr b"
  by (auto simp: is_blob_def)

lemma is_blob_encrypt_value: "snd (encrypt_value cr iv v) = Inr b \<Longrightarrow> is_blob cr b"
  by (cases v) (simp_all add: encrypt_value_def is_blob_encrypt)

lemma encrypt_if_present_blob:
  assumes "snd (encrypt_if_present cr iv field) = Inr (Some k)"
  shows "is_blob cr k"
proof (cases field)
  case None
  with assms show ?thesis by (simp add: encrypt_if_present_def)
next
  case (Some x)
  show ?thesis
  proof (cases "x = []")
    case True
    with Some assms show ?thesis by (simp add: encrypt_if_present_def)
  next
    case False
    obtain l r where e: "encrypt cr iv x = (l, r)" by (cases "encrypt cr iv x")
    with Some False assms have "r = Inr k"
      by (cases r) (simp_all add: encrypt_if_present_def)
    with e have "snd (encrypt cr iv x) = Inr k" by simp
    then show ?thesis by (rule is_blob_encrypt)
  qed
qed

lemma encrypt_update_field:
  assumes "snd (encrypt_update cr iv field) = Inr r" and "field \<noteq> Some (Some [])"
  shows "(r = field \<and> (field = None \<or> field = Some None)) \<or>
         (\<exists>k. r = Some (Some k) \<and> is_blob cr k)"
proof (cases field)
  case None
  with assms show ?thesis by (simp add: encrypt_update_def)
next
  case outer: (Some v)
  show ?thesis
  proof (cases v)
    case None
    with outer assms show ?thesis by (simp add: encrypt_update_def)
  next
    case (Some x)
    with outer assms(2) have ne: "x \<noteq> []" by simp
    obtain l q where e: "encrypt cr iv x = (l, q)" by (cases "encrypt cr iv x")
    with outer Some ne assms(1) obtain k where "q = Inr k" and "r = Some (Some k)"
      by (cases q) (auto simp: encrypt_update_def)
    with e have "snd (encrypt cr iv x) = Inr k" by simp
    then have "is_blob cr k" by (rule is_blob_encrypt)
    with \<open>r = Some (Some k)\<close> show ?thesis by blast
  qed
qed

lemma encrypted_at_rest_same:
  "encrypted_at_rest cr st \<Longrightarrow> wallets st' = wallets st \<Longrightarrow> encrypted_at_rest cr st'"
  by (simp add: encrypted_at_rest_def)

lemma encrypted_at_rest_put:
  assumes inv: "encrypted_at_rest cr st"
    and w: "wallets st' = (wallets st)(uid \<mapsto> uw')"
    and pk: "\<exists>b. privateKey (walletProvider uw') = Some b \<and> is_blob cr b"
    and ck: "\<And>k. crossmintApiKey (walletProvider uw') = Some k \<Longrightarrow> is_blob cr k"
  shows "encrypted_at_rest cr st'"
  unfolding encrypted_at_rest_def
proof (intro allI impI)
  fix u x assume x: "wallets st' u = Some x"
  show "(\<exists>b. privateKey (walletProvider x) = Some b \<and> is_blob cr b) \<and>
        (\<forall>k. crossmintApiKey (walletProvider x) = Some k \<longrightarrow> is_blob cr k)"
  proof (cases "u = uid")
    case True
    with x w have "x = uw'" by simp
    with pk ck show ?thesis by blast
  next
    case False
    with x w have "wallets st u = Some x" by simp
    with inv show ?thesis by (simp add: encrypted_at_rest_def)
  qed
qed

lemma registerWallet_keeps_invariant:
  assumes "encrypted_at_rest cr st"
  shows "encrypted_at_rest cr (snd (registerWallet cr sv now iv1 iv2 uid provider st))"
proof (cases "(type provider = Some evm \<and> \<not> truthy (address provider) \<and>
              Wallet_address sv (privateKey provider) = None) \<or>
           (\<exists>e. snd (encrypt_value cr iv1 (privateKey provider)) = Inl e) \<or>
           (\<exists>e. snd (encrypt_if_present cr iv2 (crossmintApiKey provider)) = Inl e)")
  case True
  from registerWallet_failure [OF True] assms show ?thesis
    by (simp add: encrypted_at_rest_same)
next
  case False
  then obtain epk eck where pk: "snd (encrypt_value cr iv1 (privateKey provider)) = Inr epk"
    and ck: "snd (encrypt_if_present cr iv2 (crossmintApiKey provider)) = Inr eck"
    by (metis sum.exhaust)
  from False have der: "type provider = Some evm \<and> \<not> truthy (address provider) \<longrightarrow>
      Wallet_address sv (privateKey provider) \<noteq> None" by auto
  have b1: "is_blob cr epk" using pk by (rule is_blob_encrypt_value)
  have b2: "\<And>k. eck = Some k \<Longrightarrow> is_blob cr k" using ck encrypt_if_present_blob by metis
  show ?thesis
    by (rule encrypted_at_rest_put [OF assms registerWallet_success(2) [OF der pk ck]])
       (simp_all add: b1 b2)
qed

lemma getWallet_wallets:
  "wallets (snd (getWallet cr now uid st)) = wallets st \<or>
   (\<exists>uw. wallets st uid = Some uw \<and>
         wallets (snd (getWallet cr now uid st)) = (wallets st)(uid \<mapsto> uw\<lparr>lastUsed := now\<rparr>))"
  by (auto simp: getWallet_def getWallet_try_def log_def split: option.splits prod.splits sum.splits)

lemma getWallet_keeps_invariant:
  assumes "encrypted_at_rest cr st"
  shows "encrypted_at_rest cr (snd (getWallet cr now uid st))"
proof -
  from getWallet_wallets [of cr now uid st] show ?thesis
  proof
    assume "wallets (snd (getWallet cr now uid st)) = wallets st"
    with assms show ?thesis by (simp add: encrypted_at_rest_same)
  next
    assume "\<exists>uw. wallets st uid = Some uw \<and>
         wallets (snd (getWallet cr now uid st)) = (wallets st)(uid \<mapsto> uw\<lparr>lastUsed := now\<rparr>)"
    then obtain uw where uw: "wallets st uid = Some uw"
      and w: "wallets (snd (getWallet cr now uid st)) = (wallets st)(uid \<mapsto> uw\<lparr>lastUsed := now\<rparr>)"
      by blast
    from assms uw show ?thesis
      by (intro encrypted_at_rest_put [OF assms w]) (auto simp: encrypted_at_rest_def)
  qed
qed

lemma removeWallet_keeps_invariant:
  assumes "encrypted_at_rest cr st"
  shows "encrypted_at_rest cr (snd (removeWallet uid st))"
proof (cases "wallets st uid")
  case None
  then show ?thesis using assms by (simp add: removeWallet_def)
next
  case (Some uw)
  then have w: "wallets (snd (removeWallet uid st)) = (wallets st)(uid \<mapsto> uw\<lparr>isActive := False\<rparr>)"
    by (simp add: removeWallet_def log_def)
  from assms Some show ?thesis
    by (intro encrypted_at_rest_put [OF assms w]) (auto simp: encrypted_at_rest_def)
qed

lemma updateWallet_wallets:
  "wallets (snd (updateWallet cr iv1 iv2 uid updates st)) = wallets st \<or>
   (\<exists>uw pk ck. wallets st uid = Some uw \<and>
      snd (encrypt_update cr iv1 (upd_privateKey updates)) = Inr pk \<and>
      snd (encrypt_update cr iv2 (upd_crossmintApiKey updates)) = Inr ck \<and>
      wallets (snd (updateWallet cr iv1 iv2 uid updates st)) =
        (wallets st)(uid \<mapsto> uw\<lparr>walletProvider :=
           spread (walletProvider uw) (updates\<lparr>upd_privateKey := pk, upd_crossmintApiKey := ck\<rparr>)\<rparr>))"
  by (auto simp: updateWallet_def updateWallet_try_def log_def
      split: option.splits prod.splits sum.splits)

lemma updateWallet_keeps_invariant:
  assumes inv: "encrypted_at_rest cr st"
    and ne: "upd_privateKey updates \<noteq> Some None" "upd_privateKey updates \<noteq> Some (Some [])"
      "upd_crossmintApiKey updates \<noteq> Some (Some [])"
  shows "encrypted_at_rest cr (snd (updateWallet cr iv1 iv2 uid updates st))"
proof -
  from updateWallet_wallets [of cr iv1 iv2 uid updates st]
  show ?thesis
  proof
    assume "wallets (snd (updateWallet cr iv1 iv2 uid updates st)) = wallets st"
    with inv show ?thesis by (simp add: encrypted_at_rest_same)
  next
    assume "\<exists>uw pk ck. wallets st uid = Some uw \<and>
      snd (encrypt_update cr iv1 (upd_privateKey updates)) = Inr pk \<and>
      snd (encrypt_update cr iv2 (upd_crossmintApiKey updates)) = Inr ck \<and>
      wallets (snd (updateWallet cr iv1 iv2 uid updates st)) =
        (wallets st)(uid \<mapsto> uw\<lparr>walletProvider :=
           spread (walletProvider uw) (updates\<lparr>upd_privateKey := pk, upd_crossmintApiKey := ck\<rparr>)\<rparr>)"
    then obtain uw pk ck where uw: "wallets st uid = Some uw"
      and pk: "snd (encrypt_update cr iv1 (upd_privateKey updates)) = Inr pk"
      and ck: "snd (encrypt_update cr iv2 (upd_crossmintApiKey updates)) = Inr ck"
      and w: "wallets (snd (updateWallet cr iv1 iv2 uid updates st)) =
        (wallets st)(uid \<mapsto> uw\<lparr>walletProvider :=
           spread (walletProvider uw) (updates\<lparr>upd_privateKey := pk, upd_crossmintApiKey := ck\<rparr>)\<rparr>)"
      by blast
    from inv uw have old: "\<exists>b. privateKey (walletProvider uw) = Some b \<and> is_blob cr b"
      "\<And>k. crossmintApiKey (walletProvider uw) = Some k \<Longrightarrow> is_blob cr k"
      by (auto simp: encrypted_at_rest_def)
    from encrypt_update_field [OF pk ne(2)] ne(1) old(1)
    have new_pk: "\<exists>b. privateKey (spread (walletProvider uw)
        (updates\<lparr>upd_privateKey := pk, upd_crossmintApiKey := ck\<rparr>)) = Some b \<and> is_blob cr b"
      by (auto simp: spread_def)
    from encrypt_update_field [OF ck ne(3)] old(2)
    have new_ck: "\<And>k. crossmintApiKey (spread (walletProvider uw)
        (updates\<lparr>upd_privateKey := pk, upd_crossmintApiKey := ck\<rparr>)) = Some k \<Longrightarrow> is_blob cr k"
      by (auto simp: spread_def)
    show ?thesis
      by (rule encrypted_at_rest_put [OF inv w]) (simp_all add: new_pk new_ck)
  qed
qed

lemma apply_operation_keeps_invariant:
  "encrypted_at_rest cr st \<Longrightarrow> no_falsy_secret op \<Longrightarrow>
   encrypted_at_rest cr (apply_operation cr sv op st)"
  by (cases op)
     (simp_all add: registerWallet_keeps_invariant getWallet_keeps_invariant
        updateWallet_keeps_invariant removeWallet_keeps_invariant)

lemma encrypted_at_rest_reachable:
  "list_all no_falsy_secret ops \<Longrightarrow> encrypted_at_rest cr (run_operations cr sv ops no_wallets)"
proof -
  have start: "encrypted_at_rest cr no_wallets"
    by (simp add: encrypted_at_rest_def no_wallets_def)
  have step: "encrypted_at_rest cr st \<Longrightarrow> list_all no_falsy_secret ops \<Longrightarrow>
      encrypted_at_rest cr (fold (apply_operation cr sv) ops st)" for st
    by (induction ops arbitrary: st) (simp_all add: apply_operation_keeps_invariant)
  assume "list_all no_falsy_secret ops"
  with start step show ?thesis by (simp add: run_operations_def)
qed

text \<open>
  With a cipher that works, an update that carries \<^verbatim>\<open>privateKey: ''\<close> or
  \<^verbatim>\<open>privateKey: undefined\<close> would leave a record without an encrypted key.
\<close>

lemma encrypted_at_rest_broken:
  "\<not> encrypted_at_rest demo_crypto
       (run_operations demo_crypto demo_services
          [Register 1 demo_iv demo_iv ''u'' demo_provider,
           Update demo_iv demo_iv ''u'' empty_key_update] no_wallets)"
  "\<not> encrypted_at_rest demo_crypto
       (run_operations demo_crypto demo_services
          [Register 1 demo_iv demo_iv ''u'' demo_provider,
           Update demo_iv demo_iv ''u'' undefined_key_update] no_wallets)"
proof -
  have e: "\<not> encrypted_at_rest demo_crypto st"
    if "\<exists>uw. wallets st ''u'' = Some uw \<and> privateKey (walletProvider uw) \<in> {None, Some []}" for st
  proof
    assume inv: "encrypted_at_rest demo_crypto st"
    from that obtain uw where uw: "wallets st ''u'' = Some uw"
      and k: "privateKey (walletProvider uw) \<in> {None, Some []}" by blast
    from inv uw obtain b where "privateKey (walletProvider uw) = Some b" and "is_blob demo_crypto b"
      unfolding encrypted_at_rest_def by metis
    with k have "is_blob demo_crypto []" by auto
    then show False by (simp add: is_blob_def encrypt_not_empty)
  qed
  show "\<not> encrypted_at_rest demo_crypto
       (run_operations demo_crypto demo_services
          [Register 1 demo_iv demo_iv ''u'' demo_provider,
           Update demo_iv demo_iv ''u'' empty_key_update] no_wallets)"
    unfolding run_operations_def
    by (rule e, simp add: demo_register)
       (simp add: updateWallet_def updateWallet_try_def encrypt_update_def
          empty_key_update_def one_wallet_def demo_wallet_def demo_provider_def spread_def log_def)
  show "\<not> encrypted_at_rest demo_crypto
       (run_operations demo_crypto demo_services
          [Register 1 demo_iv demo_iv ''u'' demo_provider,
           Update demo_iv demo_iv ''u'' undefined_key_update] no_wallets)"
    unfolding run_operations_def
    by (rule e, simp add: demo_register)
       (simp add: updateWallet_def updateWallet_try_def encrypt_update_def
          undefined_key_update_def one_wallet_def demo_wallet_def demo_provider_def spread_def log_def)
qed





end
